theory Spec2Isabelle
  imports Complex_Main "HOL-Library.AList"
begin

section \<open>Line-item intake handler (src/AWS/add-line-items.py)\<close>

text \<open>
  The handler receives a JSON event, normalises its \<^verbatim>\<open>parameters\<close> field, validates the
  three required fields, parses the quantity, inserts one row through psycopg2 and answers
  with a response envelope. The embedding below follows the source section by section.
  Python values are JSON values, a raised exception is the \<open>Inl\<close> branch of a sum, and the
  database is an explicit \<open>world\<close> that the handler passes through.
\<close>

subsection \<open>Python values\<close>

text \<open>
  A decoded JSON document. Python's \<^verbatim>\<open>json\<close> module yields \<^verbatim>\<open>int\<close> for integer literals and
  \<^verbatim>\<open>float\<close> for the others; a finite float is a rational number here (every double is one),
  so the model covers at least the floats Python has. Strings are \<open>string\<close>, a list of
  8-bit characters: text outside ASCII is its UTF-8 encoding. A dictionary is an
  association list read with \<open>map_of\<close>, so the first entry of a key is the one that counts;
  a decoded JSON object has each key once.
\<close>

datatype pyfloat = Finite rat | PosInf | NegInf | NaN

datatype json =
    JNull
  | JBool bool
  | JInt int
  | JFloat pyfloat
  | JStr string
  | JList "json list"
  | JObj "(string \<times> json) list"

text \<open>The exceptions the handler's own statements can raise.\<close>

datatype exn =
    AttributeError
  | KeyError string
  | TypeError
  | ValueError
  | OverflowError

text \<open>Truth value testing, as \<^verbatim>\<open>not x\<close> and \<^verbatim>\<open>if x\<close> use it.\<close>

fun truthy :: "json \<Rightarrow> bool" where
  "truthy JNull = False"
| "truthy (JBool b) = b"
| "truthy (JInt i) = (i \<noteq> 0)"
| "truthy (JFloat f) = (f \<noteq> Finite 0)"
| "truthy (JStr s) = (s \<noteq> [])"
| "truthy (JList xs) = (xs \<noteq> [])"
| "truthy (JObj d) = (d \<noteq> [])"

text \<open>\<^verbatim>\<open>d.get(k, default)\<close> on a dictionary.\<close>

definition dict_get :: "(string \<times> json) list \<Rightarrow> string \<Rightarrow> json \<Rightarrow> json" where
  "dict_get d k dflt = (case map_of d k of None \<Rightarrow> dflt | Some v \<Rightarrow> v)"

text \<open>
  \<^verbatim>\<open>x.get(k, default)\<close> on any value: only a dictionary has the method, every other JSON
  value raises AttributeError.
\<close>

fun py_get :: "json \<Rightarrow> string \<Rightarrow> json \<Rightarrow> exn + json" where
  "py_get (JObj d) k dflt = Inr (dict_get d k dflt)"
| "py_get _ k dflt = Inl AttributeError"

subsection \<open>Decimal text of an integer: \<^verbatim>\<open>str(n)\<close>\<close>

fun str_nat :: "nat \<Rightarrow> string" where
  "str_nat n =
     (if n < 10 then [''0123456789'' ! n]
      else str_nat (n div 10) @ [''0123456789'' ! (n mod 10)])"

declare str_nat.simps [simp del]

definition str_int :: "int \<Rightarrow> string" where
  "str_int i = (if i < 0 then CHR ''-'' # str_nat (nat (- i)) else str_nat (nat i))"

text \<open>
  \<^verbatim>\<open>str(v)\<close>, which an f-string applies to each field. The text of a float, a list or a
  dictionary is Python's \<^verbatim>\<open>repr\<close>; it is left to the parameter \<open>repr\<close>.
\<close>

fun py_str :: "(json \<Rightarrow> string) \<Rightarrow> json \<Rightarrow> string" where
  "py_str repr (JStr s) = s"
| "py_str repr JNull = ''None''"
| "py_str repr (JBool b) = (if b then ''True'' else ''False'')"
| "py_str repr (JInt i) = str_int i"
| "py_str repr v = repr v"

subsection \<open>Integer conversion: \<^verbatim>\<open>int(x)\<close>\<close>

text \<open>
  CPython reads a string of ASCII characters in base 10 as: optional white space, an
  optional sign, decimal digits in which single underscores may separate digits, optional
  white space. More than 4300 digits are refused (the default \<^verbatim>\<open>sys.int_max_str_digits\<close>).
\<close>

definition py_isspace :: "char \<Rightarrow> bool" where
  "py_isspace c = (c \<in> set [CHR 0x09, CHR 0x0A, CHR 0x0B, CHR 0x0C, CHR 0x0D, CHR 0x20])"

definition is_digit :: "char \<Rightarrow> bool" where
  "is_digit c = (c \<in> set ''0123456789'')"

definition digit_val :: "char \<Rightarrow> nat" where
  "digit_val c = length (takeWhile (\<lambda>d. d \<noteq> c) ''0123456789'')"

text \<open>
  The validating scan of the digit part: \<open>prev\<close> is the previous character. A leading,
  a trailing and a doubled underscore are refused, as is any other character.
\<close>

fun scan_digits :: "char \<Rightarrow> string \<Rightarrow> bool" where
  "scan_digits prev [] = (prev \<noteq> CHR ''_'')"
| "scan_digits prev (c # cs) =
     (if c = CHR ''_'' then prev \<noteq> CHR ''_'' \<and> scan_digits c cs
      else is_digit c \<and> scan_digits c cs)"

definition int_max_str_digits :: nat where
  "int_max_str_digits = 4300"

definition parse_digits :: "string \<Rightarrow> nat option" where
  "parse_digits s =
     (let ds = filter is_digit s in
      if s = [] \<or> \<not> scan_digits CHR ''_'' s \<or> int_max_str_digits < length ds then None
      else Some (foldl (\<lambda>a c. 10 * a + digit_val c) 0 ds))"

definition strip :: "string \<Rightarrow> string" where
  "strip s = rev (dropWhile py_isspace (rev (dropWhile py_isspace s)))"

definition int_of_ascii :: "string \<Rightarrow> int option" where
  "int_of_ascii s =
     (case strip s of
        [] \<Rightarrow> None
      | c # cs \<Rightarrow>
          if c = CHR ''-'' then map_option (\<lambda>n. - int n) (parse_digits cs)
          else if c = CHR ''+'' then map_option int (parse_digits cs)
          else map_option int (parse_digits (c # cs)))"

text \<open>
  When the string has a character outside ASCII, CPython first replaces every decimal digit
  of any script by its ASCII digit and every Unicode white space by a space, by the tables
  of its Unicode character database, and reads the result. Those tables are not part of
  this repository: what \<^verbatim>\<open>int\<close> returns on such a string is the parameter \<open>unicode\<close>
  (\<open>None\<close> for ValueError). A character is outside ASCII when the top bit of a byte of
  its UTF-8 encoding is set.
\<close>

definition is_ascii :: "char \<Rightarrow> bool" where
  "is_ascii c = (\<not> digit7 c)"

definition int_of_str :: "(string \<Rightarrow> int option) \<Rightarrow> string \<Rightarrow> int option" where
  "int_of_str unicode s = (if list_all is_ascii s then int_of_ascii s else unicode s)"

text \<open>
  \<^verbatim>\<open>int(x)\<close> on a decoded JSON value: a string is parsed (ValueError when it is not an
  integer literal), a number is truncated towards zero (an infinity raises OverflowError,
  a NaN ValueError), and \<^verbatim>\<open>None\<close>, a list and a dictionary raise TypeError.
\<close>

fun py_int :: "(string \<Rightarrow> int option) \<Rightarrow> json \<Rightarrow> exn + int" where
  "py_int unicode (JStr s) =
     (case int_of_str unicode s of None \<Rightarrow> Inl ValueError | Some n \<Rightarrow> Inr n)"
| "py_int unicode (JInt i) = Inr i"
| "py_int unicode (JBool b) = Inr (if b then 1 else 0)"
| "py_int unicode (JFloat (Finite q)) = Inr (if q < 0 then \<lceil>q\<rceil> else \<lfloor>q\<rfloor>)"
| "py_int unicode (JFloat NaN) = Inl ValueError"
| "py_int unicode (JFloat _) = Inl OverflowError"
| "py_int unicode _ = Inl TypeError"

subsection \<open>Section 1 of the handler: parameter normalisation\<close>

text \<open>
  One element of the comprehension \<^verbatim>\<open>{param['name']: param['value'] for param in ...}\<close>:
  subscripting anything but a dictionary with a string raises TypeError, a dictionary
  without the key raises KeyError.
\<close>

fun param_entry :: "json \<Rightarrow> exn + (json \<times> json)" where
  "param_entry (JObj p) =
     (case map_of p ''name'' of
        None \<Rightarrow> Inl (KeyError ''name'')
      | Some k \<Rightarrow>
          (case map_of p ''value'' of
             None \<Rightarrow> Inl (KeyError ''value'')
           | Some v \<Rightarrow> Inr (k, v)))"
| "param_entry _ = Inl TypeError"

text \<open>
  Storing under the key: a list or a dictionary is unhashable (TypeError). A string key
  replaces an earlier entry of the same name. A number, a boolean or \<^verbatim>\<open>None\<close> is stored
  by Python under a key that no string lookup finds; the handler reads the dictionary with
  string keys only, so the model leaves such an entry out.
\<close>

fun dict_store :: "json \<Rightarrow> json \<Rightarrow> (string \<times> json) list \<Rightarrow> exn + (string \<times> json) list" where
  "dict_store (JStr k) v d = Inr (AList.update k v d)"
| "dict_store (JList xs) v d = Inl TypeError"
| "dict_store (JObj kvs) v d = Inl TypeError"
| "dict_store _ v d = Inr d"

fun dict_comprehension ::
  "json list \<Rightarrow> (string \<times> json) list \<Rightarrow> exn + (string \<times> json) list" where
  "dict_comprehension [] d = Inr d"
| "dict_comprehension (p # ps) d =
     (case param_entry p of
        Inl e \<Rightarrow> Inl e
      | Inr (k, v) \<Rightarrow>
          (case dict_store k v d of
             Inl e \<Rightarrow> Inl e
           | Inr d' \<Rightarrow> dict_comprehension ps d'))"

definition normalise_parameters :: "json \<Rightarrow> exn + json" where
  "normalise_parameters event =
     (case py_get event ''parameters'' JNull of
        Inl e \<Rightarrow> Inl e
      | Inr (JList ps) \<Rightarrow>
          (case dict_comprehension ps [] of Inl e \<Rightarrow> Inl e | Inr d \<Rightarrow> Inr (JObj d))
      | Inr _ \<Rightarrow> py_get event ''parameters'' (JObj []))"

subsection \<open>The error envelope: \<^verbatim>\<open>_agent_error\<close>\<close>

text \<open>The third argument is \<open>None\<close> when the caller omits \<^verbatim>\<open>status_code\<close>.\<close>

definition agent_error :: "json \<Rightarrow> string \<Rightarrow> int option \<Rightarrow> exn + json" where
  "agent_error event message status_code =
     (case py_get event ''actionGroup'' JNull of
        Inl e \<Rightarrow> Inl e
      | Inr ag \<Rightarrow>
          (case py_get event ''function'' JNull of
             Inl e \<Rightarrow> Inl e
           | Inr fn \<Rightarrow>
               Inr (JObj
                 [(''messageVersion'', JStr ''1.0''),
                  (''response'', JObj
                    [(''actionGroup'', ag),
                     (''function'', fn),
                     (''functionResponse'', JObj
                       [(''responseBody'', JObj
                         [(''TEXT'', JObj [(''body'', JStr message)])])])]),
                  (''statusCode'',
                     JInt (case status_code of None \<Rightarrow> 400 | Some c \<Rightarrow> c))])))"

subsection \<open>Section 4 of the handler: the insert\<close>

record line_item =
  requisition_id :: json
  item_name :: json
  material_code :: json
  quantity :: int
  created_at :: nat

text \<open>
  The database as the handler sees it: the committed rows of
  \<^verbatim>\<open>requisitions_lineitems\<close> and the database calls that succeeded, in order.
\<close>

datatype db_action =
    Connect
  | OpenCursor
  | Execute line_item
  | Commit
  | CloseCursor
  | CloseConnection

record world =
  table :: "line_item list"
  calls :: "db_action list"

text \<open>
  What the handler cannot decide itself: the clock, the text of \<^verbatim>\<open>repr\<close>, what \<^verbatim>\<open>int\<close>
  reads in a string with a character outside ASCII, and for each psycopg2 call inside the \<^verbatim>\<open>try\<close> whether it raises (\<open>Some\<close> of the exception's text) or
  succeeds. All psycopg2 errors derive from \<^verbatim>\<open>Exception\<close>. Closing an unnamed cursor and
  closing a connection do not raise in psycopg2.
\<close>

record runtime =
  py_repr :: "json \<Rightarrow> string"
  int_unicode :: "string \<Rightarrow> int option"
  utcnow :: nat
  connect_raises :: "string option"
  cursor_raises :: "string option"
  execute_raises :: "line_item \<Rightarrow> string option"
  commit_raises :: "string option"

definition record_action :: "db_action \<Rightarrow> world \<Rightarrow> world" where
  "record_action a w = w\<lparr>calls := calls w @ [a]\<rparr>"

text \<open>
  The body of the \<^verbatim>\<open>try\<close>: the result is the caught exception's text (if any), whether
  \<^verbatim>\<open>conn\<close> and \<^verbatim>\<open>cur\<close> were assigned, and the world. A row is in the table once the
  commit has succeeded.
\<close>

definition db_try :: "runtime \<Rightarrow> world \<Rightarrow> line_item \<Rightarrow> string option \<times> bool \<times> bool \<times> world" where
  "db_try rt w row =
     (case connect_raises rt of
        Some err \<Rightarrow> (Some err, False, False, w)
      | None \<Rightarrow>
          let w1 = record_action Connect w in
          (case cursor_raises rt of
             Some err \<Rightarrow> (Some err, True, False, w1)
           | None \<Rightarrow>
               let w2 = record_action OpenCursor w1 in
               (case execute_raises rt row of
                  Some err \<Rightarrow> (Some err, True, True, w2)
                | None \<Rightarrow>
                    let w3 = record_action (Execute row) w2 in
                    (case commit_raises rt of
                       Some err \<Rightarrow> (Some err, True, True, w3)
                     | None \<Rightarrow>
                         (None, True, True,
                          record_action Commit (w3\<lparr>table := table w3 @ [row]\<rparr>))))))"

text \<open>The \<^verbatim>\<open>finally\<close> clause.\<close>

definition db_finally :: "bool \<Rightarrow> bool \<Rightarrow> world \<Rightarrow> world" where
  "db_finally conn cur w =
     (let w1 = (if cur then record_action CloseCursor w else w)
      in (if conn then record_action CloseConnection w1 else w1))"

definition insert_line_item :: "runtime \<Rightarrow> world \<Rightarrow> line_item \<Rightarrow> string option \<times> world" where
  "insert_line_item rt w row =
     (case db_try rt w row of (err, conn, cur, w') \<Rightarrow> (err, db_finally conn cur w'))"

subsection \<open>The handler\<close>

definition required_fields :: "string list" where
  "required_fields = [''requisition_id'', ''item_name'', ''quantity'']"

definition missing_fields :: "(string \<times> json) list \<Rightarrow> string list" where
  "missing_fields d = filter (\<lambda>k. \<not> truthy (dict_get d k JNull)) required_fields"

text \<open>\<^verbatim>\<open>sep.join(xs)\<close>.\<close>

fun join :: "string \<Rightarrow> string list \<Rightarrow> string" where
  "join sep [] = []"
| "join sep [x] = x"
| "join sep (x # y # ys) = x @ sep @ join sep (y # ys)"

text \<open>
  The f-string of line 95, in UTF-8. It opens with the check mark U+2713 (the bytes E2 9C
  93), and the character between \<^verbatim>\<open>Qty\<close> and the number is the no-break space U+00A0
  (the bytes C2 A0), not the space 0x20. The apostrophe is 0x27.
\<close>

definition body_text :: "(json \<Rightarrow> string) \<Rightarrow> json \<Rightarrow> int \<Rightarrow> json \<Rightarrow> string" where
  "body_text repr item qty req =
     [CHR 0xE2, CHR 0x9C, CHR 0x93] @ '' Added '' @ [CHR 0x27] @ py_str repr item @ [CHR 0x27]
       @ '' (Qty'' @ [CHR 0xC2, CHR 0xA0] @ str_int qty @ '') to requisition ''
       @ py_str repr req @ ''.''"

definition success_response :: "runtime \<Rightarrow> json \<Rightarrow> line_item \<Rightarrow> exn + json" where
  "success_response rt event row =
     (case py_get event ''actionGroup'' JNull of
        Inl e \<Rightarrow> Inl e
      | Inr ag \<Rightarrow>
          (case py_get event ''function'' JNull of
             Inl e \<Rightarrow> Inl e
           | Inr fn \<Rightarrow>
               Inr (JObj
                 [(''messageVersion'', JStr ''1.0''),
                  (''response'', JObj
                    [(''actionGroup'', ag),
                     (''function'', fn),
                     (''functionResponse'', JObj
                       [(''responseBody'', JObj
                         [(''TEXT'', JObj [(''body'', JStr
                             (body_text (py_repr rt) (item_name row) (quantity row)
                                (requisition_id row)))]),
                          (''requisition_id'', requisition_id row),
                          (''item_name'', item_name row),
                          (''quantity'', JStr (str_int (quantity row))),
                          (''material_code'', material_code row)])])])])))"

text \<open>
  Sections 2 to 5, on the normalised parameters. The result is the returned envelope or
  the exception that leaves the handler, and the world afterwards.
\<close>

definition handle_parameters ::
  "runtime \<Rightarrow> world \<Rightarrow> json \<Rightarrow> (string \<times> json) list \<Rightarrow> (exn + json) \<times> world" where
  "handle_parameters rt w event d =
     (let requisition_id = dict_get d ''requisition_id'' (JStr []);
          item_name = dict_get d ''item_name'' (JStr []);
          quantity = dict_get d ''quantity'' (JStr []);
          material_code = dict_get d ''material_code'' (JStr []);
          missing = missing_fields d
      in
      if missing \<noteq> [] then
        (agent_error event (''Missing required field(s): '' @ join '', '' missing) (Some 400), w)
      else
        (case py_int (int_unicode rt) quantity of
           Inl ValueError \<Rightarrow> (agent_error event ''Quantity must be an integer'' (Some 400), w)
         | Inl e \<Rightarrow> (Inl e, w)
         | Inr quantity_int \<Rightarrow>
             let row = \<lparr>requisition_id = requisition_id, item_name = item_name,
                         material_code = material_code, quantity = quantity_int,
                         created_at = utcnow rt\<rparr>
             in
             (case insert_line_item rt w row of
                (Some err, w') \<Rightarrow> (agent_error event (''Database error: '' @ err) (Some 500), w')
              | (None, w') \<Rightarrow> (success_response rt event row, w'))))"

definition lambda_handler :: "runtime \<Rightarrow> world \<Rightarrow> json \<Rightarrow> (exn + json) \<times> world" where
  "lambda_handler rt w event =
     (case normalise_parameters event of
        Inl e \<Rightarrow> (Inl e, w)
      | Inr (JObj d) \<Rightarrow> handle_parameters rt w event d
      | Inr _ \<Rightarrow> (Inl AttributeError, w))"

subsection \<open>Reading a response\<close>

text \<open>The value under a path of keys, \<open>None\<close> when a key is not there.\<close>

fun json_path :: "string list \<Rightarrow> json \<Rightarrow> json option" where
  "json_path [] v = Some v"
| "json_path (k # ks) (JObj d) =
     (case map_of d k of None \<Rightarrow> None | Some v \<Rightarrow> json_path ks v)"
| "json_path (k # ks) _ = None"

text \<open>The key occurs in the value, at any depth.\<close>

fun contains_key :: "string \<Rightarrow> json \<Rightarrow> bool" where
  "contains_key k (JObj d) = (\<exists>kv \<in> set d. fst kv = k \<or> contains_key k (snd kv))"
| "contains_key k (JList xs) = (\<exists>v \<in> set xs. contains_key k v)"
| "contains_key k _ = False"

definition text_body :: "string list" where
  "text_body = [''response'', ''functionResponse'', ''responseBody'', ''TEXT'', ''body'']"

definition echoed :: "string \<Rightarrow> string list" where
  "echoed k = [''response'', ''functionResponse'', ''responseBody'', k]"

text \<open>The key occurs, at any depth, in the value that the response holds under the path.\<close>

definition key_within :: "string \<Rightarrow> string list \<Rightarrow> json \<Rightarrow> bool" where
  "key_within k p resp = (case json_path p resp of None \<Rightarrow> False | Some v \<Rightarrow> contains_key k v)"

text \<open>
  An element of the sequence form of \<^verbatim>\<open>parameters\<close>: an object whose \<^verbatim>\<open>name\<close> is the string
  \<open>fst kv\<close> and whose \<^verbatim>\<open>value\<close> is \<open>snd kv\<close>. Other fields, such as \<^verbatim>\<open>type\<close>, may be there.
\<close>

definition name_value_pair :: "json \<Rightarrow> string \<times> json \<Rightarrow> bool" where
  "name_value_pair p kv =
     (case p of
        JObj fs \<Rightarrow> map_of fs ''name'' = Some (JStr (fst kv)) \<and> map_of fs ''value'' = Some (snd kv)
      | _ \<Rightarrow> False)"

text \<open>A required field is missing when the key is absent or its value is falsy.\<close>

definition absent_or_falsy :: "(string \<times> json) list \<Rightarrow> string \<Rightarrow> bool" where
  "absent_or_falsy d k = (case map_of d k of None \<Rightarrow> True | Some v \<Rightarrow> \<not> truthy v)"

text \<open>
  The row that section 4 passes to \<^verbatim>\<open>execute\<close> for the normalised parameters \<open>d\<close> and the
  parsed quantity \<open>n\<close>.
\<close>

definition requested_row :: "runtime \<Rightarrow> (string \<times> json) list \<Rightarrow> int \<Rightarrow> line_item" where
  "requested_row rt d n =
     \<lparr>requisition_id = dict_get d ''requisition_id'' (JStr []),
      item_name = dict_get d ''item_name'' (JStr []),
      material_code = dict_get d ''material_code'' (JStr []),
      quantity = n, created_at = utcnow rt\<rparr>"

subsection \<open>The invocation contract\<close>




subsection \<open>When the handler answers\<close>





subsection \<open>Example requests\<close>

text \<open>A runtime in which every database call succeeds, and an empty table.\<close>

definition example_runtime :: runtime where
  "example_runtime =
     \<lparr>py_repr = (\<lambda>v. []), int_unicode = (\<lambda>s. None), utcnow = 0,
      connect_raises = None, cursor_raises = None, execute_raises = (\<lambda>row. None),
      commit_raises = None\<rparr>"

definition example_world :: world where
  "example_world = \<lparr>table = [], calls = []\<rparr>"

definition parameter :: "string \<Rightarrow> string \<Rightarrow> json" where
  "parameter k v = JObj [(''name'', JStr k), (''type'', JStr ''string''), (''value'', JStr v)]"

definition example_event :: "json \<Rightarrow> json" where
  "example_event ps =
     JObj [(''actionGroup'', JStr ''requisitions''), (''function'', JStr ''add_line_item''),
           (''parameters'', ps)]"

text \<open>The well-formed request of the specification, with the quantity left open.\<close>

definition bolt_request :: "string \<Rightarrow> json" where
  "bolt_request q =
     example_event (JList [parameter ''requisition_id'' ''REQ1'', parameter ''item_name'' ''Bolt'',
       parameter ''quantity'' q, parameter ''material_code'' ''MC5''])"

definition bolt_parameters :: "string \<Rightarrow> (string \<times> json) list" where
  "bolt_parameters q =
     [(''requisition_id'', JStr ''REQ1''), (''item_name'', JStr ''Bolt''),
      (''quantity'', JStr q), (''material_code'', JStr ''MC5'')]"

definition bolt_row :: "int \<Rightarrow> line_item" where
  "bolt_row n =
     \<lparr>requisition_id = JStr ''REQ1'', item_name = JStr ''Bolt'', material_code = JStr ''MC5'',
      quantity = n, created_at = 0\<rparr>"

text \<open>
  The success envelope for the well-formed request: \<open>ag\<close> is the echoed \<^verbatim>\<open>actionGroup\<close> and
  \<open>q\<close> the decimal text of the quantity. The text body has the bytes of line 95.
\<close>

definition bolt_answer :: "json \<Rightarrow> string \<Rightarrow> json" where
  "bolt_answer ag q =
     JObj
       [(''messageVersion'', JStr ''1.0''),
        (''response'', JObj
          [(''actionGroup'', ag),
           (''function'', JStr ''add_line_item''),
           (''functionResponse'', JObj
             [(''responseBody'', JObj
               [(''TEXT'', JObj [(''body'', JStr
                   ([CHR 0xE2, CHR 0x9C, CHR 0x93] @ '' Added 'Bolt' (Qty'' @
                    [CHR 0xC2, CHR 0xA0] @ q @ '') to requisition REQ1.''))]),
                (''requisition_id'', JStr ''REQ1''),
                (''item_name'', JStr ''Bolt''),
                (''quantity'', JStr q),
                (''material_code'', JStr ''MC5'')])])])]"

text \<open>A request whose \<^verbatim>\<open>actionGroup\<close> is an object with a \<^verbatim>\<open>statusCode\<close> key.\<close>

definition status_in_action_group :: json where
  "status_in_action_group =
     JObj [(''actionGroup'', JObj [(''statusCode'', JInt 200)]),
           (''function'', JStr ''add_line_item''),
           (''parameters'', JObj (bolt_parameters ''10''))]"

section \<open>Properties\<close>

subsection \<open>Basic facts about the embedding\<close>

lemma int_of_str_nonempty: "int_of_str u q = Some n \<Longrightarrow> q \<noteq> []"
  by (auto simp: int_of_str_def int_of_ascii_def strip_def split: if_splits)

lemma normalise_event_obj: "normalise_parameters event = Inr p \<Longrightarrow> \<exists>e. event = JObj e"
  by (cases event) (simp_all add: normalise_parameters_def)

lemma agent_error_obj:
  "agent_error (JObj e) msg c =
     Inr (JObj
       [(''messageVersion'', JStr ''1.0''),
        (''response'', JObj
          [(''actionGroup'', dict_get e ''actionGroup'' JNull),
           (''function'', dict_get e ''function'' JNull),
           (''functionResponse'', JObj
             [(''responseBody'', JObj [(''TEXT'', JObj [(''body'', JStr msg)])])])]),
        (''statusCode'', JInt (case c of None \<Rightarrow> 400 | Some k \<Rightarrow> k))])"
  by (simp add: agent_error_def)

lemma success_response_obj:
  "success_response rt (JObj e) row =
     Inr (JObj
       [(''messageVersion'', JStr ''1.0''),
        (''response'', JObj
          [(''actionGroup'', dict_get e ''actionGroup'' JNull),
           (''function'', dict_get e ''function'' JNull),
           (''functionResponse'', JObj
             [(''responseBody'', JObj
               [(''TEXT'', JObj [(''body'', JStr
                   (body_text (py_repr rt) (item_name row) (quantity row) (requisition_id row)))]),
                (''requisition_id'', requisition_id row),
                (''item_name'', item_name row),
                (''quantity'', JStr (str_int (quantity row))),
                (''material_code'', material_code row)])])])])"
  by (simp add: success_response_def)

lemma handler_on_parameters:
  "normalise_parameters event = Inr (JObj d) \<Longrightarrow>
     lambda_handler rt w event = handle_parameters rt w event d"
  by (simp add: lambda_handler_def)

lemma missing_fields_filter:
  "missing_fields d = filter (absent_or_falsy d) [''requisition_id'', ''item_name'', ''quantity'']"
  by (simp add: missing_fields_def required_fields_def absent_or_falsy_def dict_get_def
      split: option.split)

lemma handle_missing:
  "missing_fields d \<noteq> [] \<Longrightarrow>
     handle_parameters rt w event d =
       (agent_error event (''Missing required field(s): '' @ join '', '' (missing_fields d))
          (Some 400), w)"
  by (simp add: handle_parameters_def Let_def)

lemma bolt_normalise: "normalise_parameters (bolt_request q) = Inr (JObj (bolt_parameters q))"
  by (simp add: normalise_parameters_def bolt_request_def example_event_def parameter_def
      dict_get_def bolt_parameters_def)

lemma insert_all_succeed:
  "connect_raises rt = None \<Longrightarrow> cursor_raises rt = None \<Longrightarrow> execute_raises rt row = None \<Longrightarrow>
   commit_raises rt = None \<Longrightarrow>
   insert_line_item rt w row =
     (None, w\<lparr>table := table w @ [row],
              calls := calls w @ [Connect, OpenCursor, Execute row, Commit, CloseCursor,
                               CloseConnection]\<rparr>)"
  by (simp add: insert_line_item_def db_try_def db_finally_def record_action_def)

lemma insert_connect_fails:
  "connect_raises rt = Some err \<Longrightarrow> insert_line_item rt w row = (Some err, w)"
  by (simp add: insert_line_item_def db_try_def db_finally_def)

lemma insert_cursor_fails:
  "connect_raises rt = None \<Longrightarrow> cursor_raises rt = Some err \<Longrightarrow>
   insert_line_item rt w row = (Some err, w\<lparr>calls := calls w @ [Connect, CloseConnection]\<rparr>)"
  by (simp add: insert_line_item_def db_try_def db_finally_def record_action_def)

lemma insert_execute_fails:
  "connect_raises rt = None \<Longrightarrow> cursor_raises rt = None \<Longrightarrow> execute_raises rt row = Some err \<Longrightarrow>
   insert_line_item rt w row =
     (Some err, w\<lparr>calls := calls w @ [Connect, OpenCursor, CloseCursor, CloseConnection]\<rparr>)"
  by (simp add: insert_line_item_def db_try_def db_finally_def record_action_def)

lemma insert_commit_fails:
  "connect_raises rt = None \<Longrightarrow> cursor_raises rt = None \<Longrightarrow> execute_raises rt row = None \<Longrightarrow>
   commit_raises rt = Some err \<Longrightarrow>
   insert_line_item rt w row =
     (Some err, w\<lparr>calls := calls w @ [Connect, OpenCursor, Execute row, CloseCursor,
                                   CloseConnection]\<rparr>)"
  by (simp add: insert_line_item_def db_try_def db_finally_def record_action_def)

lemma handle_valid:
  "missing_fields d = [] \<Longrightarrow> py_int (int_unicode rt) (dict_get d ''quantity'' (JStr [])) = Inr n \<Longrightarrow>
   handle_parameters rt w event d =
     (let row = \<lparr>requisition_id = dict_get d ''requisition_id'' (JStr []),
                 item_name = dict_get d ''item_name'' (JStr []),
                 material_code = dict_get d ''material_code'' (JStr []),
                 quantity = n, created_at = utcnow rt\<rparr>
      in case insert_line_item rt w row of
           (Some err, w') \<Rightarrow> (agent_error event (''Database error: '' @ err) (Some 500), w')
         | (None, w') \<Rightarrow> (success_response rt event row, w'))"
  by (simp add: handle_parameters_def Let_def)

lemma handle_not_integer:
  "missing_fields d = [] \<Longrightarrow> py_int (int_unicode rt) (dict_get d ''quantity'' (JStr [])) = Inl ValueError \<Longrightarrow>
   handle_parameters rt w event d =
     (agent_error event ''Quantity must be an integer'' (Some 400), w)"
  by (simp add: handle_parameters_def Let_def)

lemma missing_fields_empty:
  "missing_fields d = [] \<longleftrightarrow>
     \<not> absent_or_falsy d ''requisition_id'' \<and> \<not> absent_or_falsy d ''item_name'' \<and>
     \<not> absent_or_falsy d ''quantity''"
  by (simp add: missing_fields_filter)

lemma not_absent_str: "map_of d k = Some (JStr s) \<Longrightarrow> s \<noteq> [] \<Longrightarrow> \<not> absent_or_falsy d k"
  by (simp add: absent_or_falsy_def)

lemma dict_get_present: "map_of d k = Some v \<Longrightarrow> dict_get d k dflt = v"
  by (simp add: dict_get_def)

lemma body_text_strings:
  "body_text repr (JStr i) n (JStr r) =
     [CHR 0xE2, CHR 0x9C, CHR 0x93] @ '' Added '' @ [CHR 0x27] @ i @ [CHR 0x27] @
                '' (Qty'' @ [CHR 0xC2, CHR 0xA0] @ str_int n @
       '') to requisition '' @ r @ ''.''"
  by (simp add: body_text_def)

text \<open>The handler's answer when validation passes and every database call succeeds.\<close>

lemma handler_success:
  assumes norm: "normalise_parameters event = Inr (JObj d)"
    and valid: "missing_fields d = []"
    and qty: "py_int (int_unicode rt) (dict_get d ''quantity'' (JStr [])) = Inr n"
    and row: "row = \<lparr>requisition_id = dict_get d ''requisition_id'' (JStr []),
                     item_name = dict_get d ''item_name'' (JStr []),
                     material_code = dict_get d ''material_code'' (JStr []),
                     quantity = n, created_at = utcnow rt\<rparr>"
    and db: "connect_raises rt = None" "cursor_raises rt = None" "execute_raises rt row = None"
      "commit_raises rt = None"
  shows "lambda_handler rt w event =
           (success_response rt event row,
            w\<lparr>table := table w @ [row],
              calls := calls w @ [Connect, OpenCursor, Execute row, Commit, CloseCursor,
                               CloseConnection]\<rparr>)"
proof -
  have "insert_line_item rt w row =
      (None, w\<lparr>table := table w @ [row],
               calls := calls w @ [Connect, OpenCursor, Execute row, Commit, CloseCursor,
                                CloseConnection]\<rparr>)"
    using db by (rule insert_all_succeed)
  then show ?thesis
    using norm valid qty by (simp add: handler_on_parameters handle_valid row Let_def)
qed

lemma parse_ten: "int_of_str u ''10'' = Some 10"
  by (simp add: int_of_str_def is_ascii_def int_of_ascii_def strip_def py_isspace_def parse_digits_def is_digit_def
      digit_val_def int_max_str_digits_def)

lemma str_ten: "str_int 10 = ''10''"
  by (simp add: str_int_def str_nat.simps)

lemma handler_valid:
  assumes "normalise_parameters event = Inr (JObj d)"
    and "missing_fields d = []"
    and "py_int (int_unicode rt) (dict_get d ''quantity'' (JStr [])) = Inr n"
  shows "lambda_handler rt w event =
           (case insert_line_item rt w (requested_row rt d n) of
              (Some err, w') \<Rightarrow> (agent_error event (''Database error: '' @ err) (Some 500), w')
            | (None, w') \<Rightarrow> (success_response rt event (requested_row rt d n), w'))"
  using assms unfolding requested_row_def
  by (simp add: handler_on_parameters handle_valid Let_def)

lemma handler_valid_envelope:
  assumes "normalise_parameters event = Inr (JObj d)"
    and "missing_fields d = []"
    and "py_int (int_unicode rt) (dict_get d ''quantity'' (JStr [])) = Inr n"
  shows "\<exists>resp w'. lambda_handler rt w event = (Inr resp, w') \<and>
           json_path [''statusCode''] resp \<noteq> Some (JInt 400)"
proof -
  obtain e where e: "event = JObj e"
    using assms(1) normalise_event_obj by blast
  obtain err w' where i: "insert_line_item rt w (requested_row rt d n) = (err, w')"
    by (cases "insert_line_item rt w (requested_row rt d n)")
  have "lambda_handler rt w event =
      (case err of
         Some x \<Rightarrow> (agent_error event (''Database error: '' @ x) (Some 500), w')
       | None \<Rightarrow> (success_response rt event (requested_row rt d n), w'))"
    by (simp add: handler_valid [OF assms] i split: option.split)
  then show ?thesis
    by (cases err) (simp_all add: e agent_error_obj success_response_obj)
qed

lemma handler_inserts:
  assumes "normalise_parameters event = Inr (JObj d)"
    and "missing_fields d = []"
    and "py_int (int_unicode rt) (dict_get d ''quantity'' (JStr [])) = Inr n"
    and "connect_raises rt = None" "cursor_raises rt = None"
      "execute_raises rt (requested_row rt d n) = None" "commit_raises rt = None"
  shows "\<exists>resp. lambda_handler rt w event =
             (Inr resp,
              w\<lparr>table := table w @ [requested_row rt d n],
                calls := calls w @ [Connect, OpenCursor, Execute (requested_row rt d n), Commit,
                                   CloseCursor, CloseConnection]\<rparr>) \<and>
           json_path (echoed ''quantity'') resp = Some (JStr (str_int n)) \<and>
           json_path text_body resp =
             Some (JStr (body_text (py_repr rt) (dict_get d ''item_name'' (JStr [])) n
               (dict_get d ''requisition_id'' (JStr [])))) \<and>
           json_path [''statusCode''] resp = None"
proof -
  obtain e where e: "event = JObj e"
    using assms(1) normalise_event_obj by blast
  have "lambda_handler rt w event =
      (success_response rt event (requested_row rt d n),
       w\<lparr>table := table w @ [requested_row rt d n],
         calls := calls w @ [Connect, OpenCursor, Execute (requested_row rt d n), Commit,
                            CloseCursor, CloseConnection]\<rparr>)"
    by (simp add: handler_valid [OF assms(1-3)] insert_all_succeed [OF assms(4-7)])
  then show ?thesis
    by (simp add: e success_response_obj echoed_def text_body_def requested_row_def)
qed

lemma valid_strings:
  assumes "\<not> absent_or_falsy d ''requisition_id''" "\<not> absent_or_falsy d ''item_name''"
    and "map_of d ''quantity'' = Some (JStr q)" "q \<noteq> []"
  shows "missing_fields d = []"
  using assms by (simp add: missing_fields_empty not_absent_str)

lemma parse_examples:
  "int_of_str u ''abc'' = None" "int_of_str u ''12.5'' = None" "int_of_str u ''-5'' = Some (- 5)"
  "int_of_str u ''0'' = Some 0" "int_of_str u ''007'' = Some 7" "int_of_str u '' +7 '' = Some 7"
  by (simp_all add: int_of_str_def is_ascii_def int_of_ascii_def strip_def py_isspace_def parse_digits_def is_digit_def
      digit_val_def int_max_str_digits_def)

lemma str_examples: "str_int 0 = ''0''" "str_int 7 = ''7''" "str_int (- 5) = ''-5''"
  by (simp_all add: str_int_def str_nat.simps)

lemma bolt_fields:
  "\<not> absent_or_falsy (bolt_parameters q) ''requisition_id''"
  "\<not> absent_or_falsy (bolt_parameters q) ''item_name''"
  "map_of (bolt_parameters q) ''quantity'' = Some (JStr q)"
  by (simp_all add: bolt_parameters_def absent_or_falsy_def)

lemma bolt_requested_row: "requested_row example_runtime (bolt_parameters q) n = bolt_row n"
  by (simp add: requested_row_def bolt_parameters_def bolt_row_def example_runtime_def
      dict_get_def)

lemma example_runtime_succeeds:
  "connect_raises example_runtime = None" "cursor_raises example_runtime = None"
  "execute_raises example_runtime row = None" "commit_raises example_runtime = None"
  by (simp_all add: example_runtime_def)

lemma handler_world:
  assumes "normalise_parameters event = Inr (JObj d)"
    and "missing_fields d = []"
    and "py_int (int_unicode rt) (dict_get d ''quantity'' (JStr [])) = Inr n"
  shows "snd (lambda_handler rt w event) = snd (insert_line_item rt w (requested_row rt d n))"
  by (simp add: handler_valid [OF assms] split: prod.split option.split)

lemma handler_database_error:
  assumes "normalise_parameters event = Inr (JObj d)"
    and "missing_fields d = []"
    and "py_int (int_unicode rt) (dict_get d ''quantity'' (JStr [])) = Inr n"
    and "insert_line_item rt w (requested_row rt d n) = (Some err, w')"
  shows "\<exists>resp. lambda_handler rt w event = (Inr resp, w') \<and>
           json_path [''statusCode''] resp = Some (JInt 500) \<and>
           json_path text_body resp = Some (JStr (''Database error: '' @ err))"
proof -
  obtain e where e: "event = JObj e"
    using assms(1) normalise_event_obj by blast
  have "lambda_handler rt w event =
      (agent_error event (''Database error: '' @ err) (Some 500), w')"
    by (simp add: handler_valid [OF assms(1-3)] assms(4))
  then show ?thesis
    by (simp add: e agent_error_obj text_body_def)
qed

lemma insert_closes_what_it_opened:
  "\<exists>acts. calls (snd (insert_line_item rt w row)) = calls w @ acts \<and>
     count_list acts CloseConnection = count_list acts Connect \<and>
     count_list acts CloseCursor = count_list acts OpenCursor \<and>
     count_list acts Connect \<le> 1 \<and> count_list acts OpenCursor \<le> 1"
proof (cases "connect_raises rt")
  case (Some err)
  then show ?thesis by (simp add: insert_connect_fails)
next
  case c: None
  show ?thesis
  proof (cases "cursor_raises rt")
    case (Some err)
    with c show ?thesis by (simp add: insert_cursor_fails)
  next
    case u: None
    show ?thesis
    proof (cases "execute_raises rt row")
      case (Some err)
      with c u show ?thesis by (simp add: insert_execute_fails)
    next
      case x: None
      show ?thesis
      proof (cases "commit_raises rt")
        case (Some err)
        with c u x show ?thesis by (simp add: insert_commit_fails)
      next
        case None
        with c u x show ?thesis by (simp add: insert_all_succeed)
      qed
    qed
  qed
qed

lemma bolt_valid: "q \<noteq> [] \<Longrightarrow> missing_fields (bolt_parameters q) = []"
  by (simp add: missing_fields_empty bolt_fields not_absent_str)

lemma bolt_quantity:
  "int_of_str u q = Some n \<Longrightarrow>
     py_int u (dict_get (bolt_parameters q) ''quantity'' (JStr [])) = Inr n"
  by (simp add: dict_get_present bolt_fields)

lemma bolt_row_any_outcome:
  "requested_row (example_runtime\<lparr>connect_raises := c, commit_raises := k\<rparr>)
     (bolt_parameters q) n = bolt_row n"
  by (simp add: requested_row_def bolt_parameters_def bolt_row_def example_runtime_def
      dict_get_def)

lemma normalise_list:
  "map_of e ''parameters'' = Some (JList ps) \<Longrightarrow>
     normalise_parameters (JObj e) =
       (case dict_comprehension ps [] of Inl x \<Rightarrow> Inl x | Inr d \<Rightarrow> Inr (JObj d))"
  by (simp add: normalise_parameters_def dict_get_def)

lemma normalise_mapping:
  "map_of e ''parameters'' = Some (JObj d) \<Longrightarrow> normalise_parameters (JObj e) = Inr (JObj d)"
  by (simp add: normalise_parameters_def dict_get_def)

lemma normalise_absent:
  "map_of e ''parameters'' = None \<Longrightarrow> normalise_parameters (JObj e) = Inr (JObj [])"
  by (simp add: normalise_parameters_def dict_get_def)

lemma normalise_depends_on_parameters:
  "map_of e1 ''parameters'' = map_of e2 ''parameters'' \<Longrightarrow>
     normalise_parameters (JObj e1) = normalise_parameters (JObj e2)"
  by (simp add: normalise_parameters_def dict_get_def split: option.split json.split)

lemma map_add_upd_left:
  "n = map_of (rev kvs) \<Longrightarrow> m(k \<mapsto> v) ++ n = m ++ (map_of (rev kvs @ [(k, v)]))"
  by (rule ext) (auto simp: map_add_def split: option.splits)

lemma comprehension_pairs:
  "list_all2 name_value_pair ps kvs \<Longrightarrow> distinct (map fst d0) \<Longrightarrow>
     \<exists>d. dict_comprehension ps d0 = Inr d \<and> map_of d = map_of d0 ++ map_of (rev kvs) \<and>
       distinct (map fst d)"
proof (induction ps kvs arbitrary: d0 rule: list_all2_induct)
  case Nil
  then show ?case by simp
next
  case (Cons p ps kv kvs)
  obtain fs where p: "p = JObj fs" "map_of fs ''name'' = Some (JStr (fst kv))"
    "map_of fs ''value'' = Some (snd kv)"
    using Cons.hyps(1) by (auto simp: name_value_pair_def split: json.splits)
  have step: "dict_comprehension (p # ps) d0 =
      dict_comprehension ps (AList.update (fst kv) (snd kv) d0)"
    by (simp add: p)
  have "distinct (map fst (AList.update (fst kv) (snd kv) d0))"
    using Cons.prems by (rule distinct_update)
  from Cons.IH [OF this]
  obtain d where d: "dict_comprehension ps (AList.update (fst kv) (snd kv) d0) = Inr d"
    "map_of d = map_of (AList.update (fst kv) (snd kv) d0) ++ map_of (rev kvs)"
    "distinct (map fst d)"
    by blast
  have "map_of d = (map_of d0)(fst kv \<mapsto> snd kv) ++ map_of (rev kvs)"
    using d(2) by (simp only: update_conv')
  also have "\<dots> = map_of d0 ++ map_of (rev kvs @ [(fst kv, snd kv)])"
    by (rule map_add_upd_left) (rule refl)
  finally have "map_of d = map_of d0 ++ map_of (rev (kv # kvs))"
    by simp
  with step d(1,3) show ?case by simp
qed

lemma insert_outcomes:
  assumes "insert_line_item rt w row = (err, w')"
  shows "case err of None \<Rightarrow> table w' = table w @ [row] | Some x \<Rightarrow> table w' = table w"
proof (cases "connect_raises rt")
  case (Some x)
  from assms show ?thesis
    unfolding insert_connect_fails [OF Some] by auto
next
  case c: None
  show ?thesis
  proof (cases "cursor_raises rt")
    case (Some x)
    from assms show ?thesis
      unfolding insert_cursor_fails [OF c Some] by auto
  next
    case u: None
    show ?thesis
    proof (cases "execute_raises rt row")
      case (Some x)
      from assms show ?thesis
        unfolding insert_execute_fails [OF c u Some] by auto
    next
      case x: None
      show ?thesis
      proof (cases "commit_raises rt")
        case (Some y)
        from assms show ?thesis
          unfolding insert_commit_fails [OF c u x Some] by auto
      next
        case None
        from assms show ?thesis
          unfolding insert_all_succeed [OF c u x None] by auto
      qed
    qed
  qed
qed

lemma handle_outcomes:
  assumes "handle_parameters rt w (JObj e) d = (res, w')"
  shows "(\<exists>x. res = Inl x) \<or>
         (\<exists>msg. res = agent_error (JObj e) msg (Some 400) \<and> table w' = table w) \<or>
         (\<exists>msg. res = agent_error (JObj e) msg (Some 500) \<and> table w' = table w) \<or>
         (\<exists>row. res = success_response rt (JObj e) row \<and> table w' = table w @ [row])"
proof (cases "missing_fields d = []")
  case False
  then show ?thesis
    using assms by (auto simp: handle_missing)
next
  case valid: True
  show ?thesis
  proof (cases "py_int (int_unicode rt) (dict_get d ''quantity'' (JStr []))")
    case (Inl x)
    then show ?thesis
      using assms valid
      by (cases "x = ValueError") (auto simp: handle_parameters_def Let_def split: exn.splits)
  next
    case (Inr n)
    obtain err w1 where i: "insert_line_item rt w (requested_row rt d n) = (err, w1)"
      by (cases "insert_line_item rt w (requested_row rt d n)")
    have "handle_parameters rt w (JObj e) d =
        (case err of
           Some x \<Rightarrow> (agent_error (JObj e) (''Database error: '' @ x) (Some 500), w1)
         | None \<Rightarrow> (success_response rt (JObj e) (requested_row rt d n), w1))"
      using i handle_valid [OF valid Inr, where w = w and event = "JObj e"]
      by (simp add: requested_row_def Let_def split: option.split)
    then show ?thesis
      using assms insert_outcomes [OF i] by (cases err) auto
  qed
qed

lemma handler_outcomes:
  assumes "lambda_handler rt w event = (Inr resp, w')"
  shows "\<exists>e. event = JObj e \<and>
          ((\<exists>msg. Inr resp = agent_error (JObj e) msg (Some 400) \<and> table w' = table w) \<or>
           (\<exists>msg. Inr resp = agent_error (JObj e) msg (Some 500) \<and> table w' = table w) \<or>
           (\<exists>row. Inr resp = success_response rt (JObj e) row \<and> table w' = table w @ [row]))"
proof -
  obtain p where p: "normalise_parameters event = Inr p"
    using assms by (cases "normalise_parameters event") (simp_all add: lambda_handler_def)
  then obtain e where e: "event = JObj e"
    using normalise_event_obj by blast
  obtain d where d: "p = JObj d"
    using assms p by (cases p) (simp_all add: lambda_handler_def)
  have "handle_parameters rt w (JObj e) d = (Inr resp, w')"
    using assms p d e by (simp add: lambda_handler_def)
  from handle_outcomes [OF this] e show ?thesis
    by auto
qed

lemma bolt_not_integer:
  "int_of_str (int_unicode rt) q = None \<Longrightarrow> q \<noteq> [] \<Longrightarrow>
     lambda_handler rt w (bolt_request q) =
       (agent_error (bolt_request q) ''Quantity must be an integer'' (Some 400), w)"
  using bolt_normalise [of q] bolt_valid [of q]
  by (simp add: handler_on_parameters handle_not_integer dict_get_present bolt_fields)

lemma bolt_request_obj:
  "bolt_request q =
     JObj [(''actionGroup'', JStr ''requisitions''), (''function'', JStr ''add_line_item''),
           (''parameters'', JList [parameter ''requisition_id'' ''REQ1'',
              parameter ''item_name'' ''Bolt'', parameter ''quantity'' q,
              parameter ''material_code'' ''MC5''])]"
  by (simp add: bolt_request_def example_event_def)






lemma bolt_answered:
  assumes "int_of_str (int_unicode example_runtime) q = Some n"
  shows "lambda_handler example_runtime example_world (bolt_request q) =
     (Inr (bolt_answer (JStr ''requisitions'') (str_int n)),
      \<lparr>table = [bolt_row n],
       calls = [Connect, OpenCursor, Execute (bolt_row n), Commit, CloseCursor,
                CloseConnection]\<rparr>)"
proof -
  have q: "q \<noteq> []"
    using assms by (rule int_of_str_nonempty)
  have "lambda_handler example_runtime example_world (bolt_request q) =
      (success_response example_runtime (bolt_request q) (bolt_row n),
       example_world\<lparr>table := table example_world @ [bolt_row n],
         calls := calls example_world @ [Connect, OpenCursor, Execute (bolt_row n), Commit,
                            CloseCursor, CloseConnection]\<rparr>)"
    by (simp add: handler_valid [OF bolt_normalise bolt_valid [OF q] bolt_quantity [OF assms]]
        bolt_requested_row insert_all_succeed [OF example_runtime_succeeds])
  then show ?thesis
    by (simp add: bolt_request_obj success_response_obj dict_get_def bolt_row_def
        body_text_strings bolt_answer_def example_world_def)
qed

lemma status_in_action_group_answered:
  "lambda_handler example_runtime example_world status_in_action_group =
     (Inr (bolt_answer (JObj [(''statusCode'', JInt 200)]) ''10''),
      \<lparr>table = [bolt_row 10],
       calls = [Connect, OpenCursor, Execute (bolt_row 10), Commit, CloseCursor,
                CloseConnection]\<rparr>)"
proof -
  have n: "normalise_parameters status_in_action_group = Inr (JObj (bolt_parameters ''10''))"
    by (simp add: status_in_action_group_def normalise_parameters_def dict_get_def)
  have q: "''10'' \<noteq> []" by simp
  have "lambda_handler example_runtime example_world status_in_action_group =
      (success_response example_runtime status_in_action_group (bolt_row 10),
       example_world\<lparr>table := table example_world @ [bolt_row 10],
         calls := calls example_world @ [Connect, OpenCursor, Execute (bolt_row 10), Commit,
                            CloseCursor, CloseConnection]\<rparr>)"
    by (simp add: handler_valid [OF n bolt_valid [OF q] bolt_quantity [OF parse_ten]]
        bolt_requested_row insert_all_succeed [OF example_runtime_succeeds])
  then show ?thesis
    by (simp add: status_in_action_group_def success_response_obj dict_get_def bolt_row_def
        body_text_strings str_ten bolt_answer_def example_world_def)
qed











text \<open>The text of \<open>str_int\<close> is the decimal numeral of the integer.\<close>

lemma digit_char:
  assumes "k < 10"
  shows "is_digit (''0123456789'' ! k)" "digit_val (''0123456789'' ! k) = k"
    "(''0123456789'' ! k = CHR ''0'') = (k = 0)"
proof -
  from assms have "k = 0 \<or> k = 1 \<or> k = 2 \<or> k = 3 \<or> k = 4 \<or> k = 5 \<or> k = 6 \<or> k = 7 \<or> k = 8 \<or> k = 9"
    by arith
  then show "is_digit (''0123456789'' ! k)" "digit_val (''0123456789'' ! k) = k"
    "(''0123456789'' ! k = CHR ''0'') = (k = 0)"
    by (auto simp: is_digit_def digit_val_def)
qed

lemma str_nat_nonempty: "str_nat n \<noteq> []"
  by (subst str_nat.simps) simp

lemma str_nat_digits: "list_all is_digit (str_nat n)"
proof (induction n rule: str_nat.induct)
  case (1 n)
  show ?case
  proof (cases "n < 10")
    case True
    then show ?thesis
      by (subst str_nat.simps) (simp add: digit_char)
  next
    case False
    then have "list_all is_digit (str_nat (n div 10))"
      by (rule "1.IH")
    moreover have "n mod 10 < 10" by simp
    ultimately show ?thesis
      using False by (subst str_nat.simps) (simp add: digit_char)
  qed
qed

lemma str_nat_value: "foldl (\<lambda>a c. 10 * a + digit_val c) 0 (str_nat n) = n"
proof (induction n rule: str_nat.induct)
  case (1 n)
  show ?case
  proof (cases "n < 10")
    case True
    then show ?thesis
      by (subst str_nat.simps) (simp add: digit_char)
  next
    case False
    then have "foldl (\<lambda>a c. 10 * a + digit_val c) 0 (str_nat (n div 10)) = n div 10"
      by (rule "1.IH")
    moreover have "n mod 10 < 10" by simp
    ultimately show ?thesis
      using False by (subst str_nat.simps) (simp add: digit_char)
  qed
qed

lemma str_nat_leading: "hd (str_nat n) = CHR ''0'' \<Longrightarrow> n = 0"
proof (induction n rule: str_nat.induct)
  case (1 n)
  show ?case
  proof (cases "n < 10")
    case True
    then show ?thesis
      using "1.prems" by (subst (asm) str_nat.simps) (simp add: digit_char)
  next
    case False
    then have "hd (str_nat n) = hd (str_nat (n div 10))"
      by (subst str_nat.simps) (simp add: str_nat_nonempty)
    with "1.prems" "1.IH" [OF False] have "n div 10 = 0"
      by simp
    with False show ?thesis
      by simp
  qed
qed

lemma str_int_decimal:
  "\<exists>ds. str_int n = (if n < 0 then CHR ''-'' # ds else ds) \<and> ds \<noteq> [] \<and>
     list_all is_digit ds \<and> (hd ds = CHR ''0'' \<longrightarrow> ds = ''0'') \<and>
     int (foldl (\<lambda>a c. 10 * a + digit_val c) 0 ds) = \<bar>n\<bar>"
proof -
  have z: "hd (str_nat k) = CHR ''0'' \<longrightarrow> str_nat k = ''0''" for k
  proof
    assume "hd (str_nat k) = CHR ''0''"
    then have "k = 0" by (rule str_nat_leading)
    then show "str_nat k = ''0''" by (simp add: str_nat.simps)
  qed
  show ?thesis
    by (rule exI [of _ "str_nat (nat \<bar>n\<bar>)"])
      (auto simp: str_int_def str_nat_nonempty str_nat_digits str_nat_value z)
qed

subsection \<open>The success path\<close>

text \<open>
  Claim C1 gives the text body with a space between \<^verbatim>\<open>Qty\<close> and the quantity. The f-string
  of line 95 has the no-break space U+00A0 there, so the body the handler returns for the
  specification's well-formed request has the bytes C2 A0 after \<^verbatim>\<open>Qty\<close> and is not the text
  of the claim, which has the byte 20.
\<close>

theorem ascii_space_counterexample:
  "lambda_handler example_runtime example_world (bolt_request ''10'') =
     (Inr (bolt_answer (JStr ''requisitions'') ''10''),
      \<lparr>table = [bolt_row 10],
       calls = [Connect, OpenCursor, Execute (bolt_row 10), Commit, CloseCursor,
                CloseConnection]\<rparr>) \<and>
   json_path text_body (bolt_answer (JStr ''requisitions'') ''10'') =
     Some (JStr ([CHR 0xE2, CHR 0x9C, CHR 0x93] @ '' Added 'Bolt' (Qty'' @
       [CHR 0xC2, CHR 0xA0] @ ''10) to requisition REQ1.'')) \<and>
   json_path text_body (bolt_answer (JStr ''requisitions'') ''10'') \<noteq>
     Some (JStr ([CHR 0xE2, CHR 0x9C, CHR 0x93] @
       '' Added 'Bolt' (Qty 10) to requisition REQ1.''))"
  using bolt_answered [OF parse_ten]
  by (simp add: str_ten) (simp add: bolt_answer_def text_body_def)

text \<open>
  Claim C1, amended. When the normalised parameters hold a non-empty \<^verbatim>\<open>requisition_id\<close> and
  \<^verbatim>\<open>item_name\<close> and a quantity string that parses as an integer, and connect, cursor,
  execute and commit all succeed, the handler inserts exactly one row and returns a
  success envelope. Its text body is the check mark U+2713, \<^verbatim>\<open> Added '<item_name>' (Qty\<close>,
  the no-break space U+00A0, the decimal text of the quantity and
  \<^verbatim>\<open>) to requisition <requisition_id>.\<close>; its response body echoes the three string
  fields and the decimal text of the quantity. When \<^verbatim>\<open>material_code\<close> is not supplied, the
  row and the echo carry the empty string.
\<close>

theorem well_formed_request_added:
  assumes norm: "normalise_parameters event = Inr (JObj d)"
    and rid: "map_of d ''requisition_id'' = Some (JStr r)" "r \<noteq> []"
    and item: "map_of d ''item_name'' = Some (JStr i)" "i \<noteq> []"
    and qty: "map_of d ''quantity'' = Some (JStr q)" "int_of_str (int_unicode rt) q = Some n"
    and mc: "map_of d ''material_code'' = None \<and> m = [] \<or>
             map_of d ''material_code'' = Some (JStr m)"
    and row: "row = \<lparr>requisition_id = JStr r, item_name = JStr i, material_code = JStr m,
                     quantity = n, created_at = utcnow rt\<rparr>"
    and db: "connect_raises rt = None" "cursor_raises rt = None" "execute_raises rt row = None"
      "commit_raises rt = None"
  shows "\<exists>resp. lambda_handler rt w event =
             (Inr resp,
              w\<lparr>table := table w @ [row],
                calls := calls w @ [Connect, OpenCursor, Execute row, Commit, CloseCursor,
                                 CloseConnection]\<rparr>) \<and>
           json_path text_body resp =
             Some (JStr ([CHR 0xE2, CHR 0x9C, CHR 0x93] @ '' Added '' @ [CHR 0x27] @ i @ [CHR 0x27] @
                '' (Qty'' @ [CHR 0xC2, CHR 0xA0] @
               str_int n @ '') to requisition '' @ r @ ''.'')) \<and>
           json_path (echoed ''requisition_id'') resp = Some (JStr r) \<and>
           json_path (echoed ''item_name'') resp = Some (JStr i) \<and>
           json_path (echoed ''quantity'') resp = Some (JStr (str_int n)) \<and>
           json_path (echoed ''material_code'') resp = Some (JStr m) \<and>
           json_path [''statusCode''] resp = None"
proof -
  obtain e where e: "event = JObj e"
    using norm normalise_event_obj by blast
  have q: "q \<noteq> []"
    using qty(2) by (rule int_of_str_nonempty)
  have valid: "missing_fields d = []"
    unfolding missing_fields_empty
    using rid item qty(1) q by (simp add: not_absent_str)
  have n: "py_int (int_unicode rt) (dict_get d ''quantity'' (JStr [])) = Inr n"
    using qty by (simp add: dict_get_present)
  have m: "dict_get d ''material_code'' (JStr []) = JStr m"
    using mc by (auto simp: dict_get_def)
  have row': "row = \<lparr>requisition_id = dict_get d ''requisition_id'' (JStr []),
                     item_name = dict_get d ''item_name'' (JStr []),
                     material_code = dict_get d ''material_code'' (JStr []),
                     quantity = n, created_at = utcnow rt\<rparr>"
    using rid(1) item(1) m by (simp add: row dict_get_present)
  have "lambda_handler rt w event =
           (success_response rt event row,
            w\<lparr>table := table w @ [row],
              calls := calls w @ [Connect, OpenCursor, Execute row, Commit, CloseCursor,
                               CloseConnection]\<rparr>)"
    using norm valid n row' db by (rule handler_success)
  then show ?thesis
    unfolding e success_response_obj
    by (simp add: row text_body_def echoed_def body_text_strings)
qed

theorem well_formed_request_added_witness:
  "(\<exists>resp. lambda_handler example_runtime example_world (bolt_request ''10'') =
             (Inr resp,
              \<lparr>table = [bolt_row 10],
               calls = [Connect, OpenCursor, Execute (bolt_row 10), Commit, CloseCursor,
                      CloseConnection]\<rparr>) \<and>
           json_path text_body resp =
             Some (JStr ([CHR 0xE2, CHR 0x9C, CHR 0x93] @ '' Added 'Bolt' (Qty'' @
               [CHR 0xC2, CHR 0xA0] @ ''10) to requisition REQ1.'')) \<and>
           json_path (echoed ''requisition_id'') resp = Some (JStr ''REQ1'') \<and>
           json_path (echoed ''item_name'') resp = Some (JStr ''Bolt'') \<and>
           json_path (echoed ''quantity'') resp = Some (JStr ''10'') \<and>
           json_path (echoed ''material_code'') resp = Some (JStr ''MC5'') \<and>
           json_path [''statusCode''] resp = None) \<and>
   (\<exists>resp. lambda_handler example_runtime example_world
             (example_event (JList [parameter ''requisition_id'' ''REQ1'',
                parameter ''item_name'' ''Bolt'', parameter ''quantity'' ''10''])) =
             (Inr resp,
              \<lparr>table = [(bolt_row 10)\<lparr>material_code := JStr []\<rparr>],
               calls = [Connect, OpenCursor, Execute ((bolt_row 10)\<lparr>material_code := JStr []\<rparr>),
                        Commit, CloseCursor, CloseConnection]\<rparr>) \<and>
           json_path text_body resp =
             Some (JStr ([CHR 0xE2, CHR 0x9C, CHR 0x93] @ '' Added 'Bolt' (Qty'' @
               [CHR 0xC2, CHR 0xA0] @ ''10) to requisition REQ1.'')) \<and>
           json_path (echoed ''requisition_id'') resp = Some (JStr ''REQ1'') \<and>
           json_path (echoed ''item_name'') resp = Some (JStr ''Bolt'') \<and>
           json_path (echoed ''quantity'') resp = Some (JStr ''10'') \<and>
           json_path (echoed ''material_code'') resp = Some (JStr []) \<and>
           json_path [''statusCode''] resp = None)"
proof
  show "\<exists>resp. lambda_handler example_runtime example_world (bolt_request ''10'') =
             (Inr resp,
              \<lparr>table = [bolt_row 10],
               calls = [Connect, OpenCursor, Execute (bolt_row 10), Commit, CloseCursor,
                      CloseConnection]\<rparr>) \<and>
           json_path text_body resp =
             Some (JStr ([CHR 0xE2, CHR 0x9C, CHR 0x93] @ '' Added 'Bolt' (Qty'' @
               [CHR 0xC2, CHR 0xA0] @ ''10) to requisition REQ1.'')) \<and>
           json_path (echoed ''requisition_id'') resp = Some (JStr ''REQ1'') \<and>
           json_path (echoed ''item_name'') resp = Some (JStr ''Bolt'') \<and>
           json_path (echoed ''quantity'') resp = Some (JStr ''10'') \<and>
           json_path (echoed ''material_code'') resp = Some (JStr ''MC5'') \<and>
           json_path [''statusCode''] resp = None"
    using well_formed_request_added [OF bolt_normalise, where q = "''10''" and r = "''REQ1''"
        and i = "''Bolt''" and n = 10 and m = "''MC5''" and row = "bolt_row 10"
        and rt = example_runtime and w = example_world]
    by (simp add: bolt_parameters_def bolt_row_def example_runtime_def example_world_def
        parse_ten str_ten)
next
  have n: "normalise_parameters
      (example_event (JList [parameter ''requisition_id'' ''REQ1'',
         parameter ''item_name'' ''Bolt'', parameter ''quantity'' ''10''])) =
      Inr (JObj [(''requisition_id'', JStr ''REQ1''), (''item_name'', JStr ''Bolt''),
                 (''quantity'', JStr ''10'')])"
    by (simp add: normalise_parameters_def example_event_def parameter_def dict_get_def)
  show "\<exists>resp. lambda_handler example_runtime example_world
             (example_event (JList [parameter ''requisition_id'' ''REQ1'',
                parameter ''item_name'' ''Bolt'', parameter ''quantity'' ''10''])) =
             (Inr resp,
              \<lparr>table = [(bolt_row 10)\<lparr>material_code := JStr []\<rparr>],
               calls = [Connect, OpenCursor, Execute ((bolt_row 10)\<lparr>material_code := JStr []\<rparr>),
                        Commit, CloseCursor, CloseConnection]\<rparr>) \<and>
           json_path text_body resp =
             Some (JStr ([CHR 0xE2, CHR 0x9C, CHR 0x93] @ '' Added 'Bolt' (Qty'' @
               [CHR 0xC2, CHR 0xA0] @ ''10) to requisition REQ1.'')) \<and>
           json_path (echoed ''requisition_id'') resp = Some (JStr ''REQ1'') \<and>
           json_path (echoed ''item_name'') resp = Some (JStr ''Bolt'') \<and>
           json_path (echoed ''quantity'') resp = Some (JStr ''10'') \<and>
           json_path (echoed ''material_code'') resp = Some (JStr []) \<and>
           json_path [''statusCode''] resp = None"
    using well_formed_request_added [OF n, where q = "''10''" and r = "''REQ1''"
        and i = "''Bolt''" and n = 10 and m = "[]"
        and row = "(bolt_row 10)\<lparr>material_code := JStr []\<rparr>"
        and rt = example_runtime and w = example_world]
    by (simp add: bolt_row_def example_runtime_def example_world_def parse_ten str_ten)
qed

subsection \<open>Required-field validation\<close>

text \<open>
  Claim C2. When any of \<^verbatim>\<open>requisition_id\<close>, \<^verbatim>\<open>item_name\<close>, \<^verbatim>\<open>quantity\<close> is absent or
  falsy in the normalised parameters, the handler returns a status-400 error envelope
  whose message lists exactly the missing names, joined by a comma and a space, in that
  fixed order, and the database is not touched: the world is returned as it was.
\<close>

theorem missing_fields_rejected:
  assumes "normalise_parameters event = Inr (JObj d)"
    and "absent_or_falsy d ''requisition_id'' \<or> absent_or_falsy d ''item_name'' \<or>
         absent_or_falsy d ''quantity''"
  shows "\<exists>resp. lambda_handler rt w event = (Inr resp, w) \<and>
           json_path [''statusCode''] resp = Some (JInt 400) \<and>
           json_path text_body resp =
             Some (JStr (''Missing required field(s): '' @
               join '', '' (filter (absent_or_falsy d)
                 [''requisition_id'', ''item_name'', ''quantity''])))"
proof -
  obtain e where e: "event = JObj e"
    using assms(1) normalise_event_obj by blast
  have "missing_fields d \<noteq> []"
    using assms(2) by (auto simp: missing_fields_empty)
  then have "lambda_handler rt w event =
      (agent_error event (''Missing required field(s): '' @ join '', '' (missing_fields d))
         (Some 400), w)"
    using assms(1) by (simp add: handler_on_parameters handle_missing)
  then show ?thesis
    unfolding e agent_error_obj missing_fields_filter
    by (simp add: text_body_def)
qed

theorem missing_fields_rejected_witness:
  "\<exists>resp. lambda_handler example_runtime example_world
             (example_event (JList [parameter ''item_name'' ''Bolt''])) = (Inr resp, example_world) \<and>
          json_path [''statusCode''] resp = Some (JInt 400) \<and>
          json_path text_body resp =
            Some (JStr ''Missing required field(s): requisition_id, quantity'')"
proof -
  have n: "normalise_parameters (example_event (JList [parameter ''item_name'' ''Bolt'']))
      = Inr (JObj [(''item_name'', JStr ''Bolt'')])"
    by (simp add: normalise_parameters_def example_event_def parameter_def dict_get_def)
  have m: "absent_or_falsy [(''item_name'', JStr ''Bolt'')] ''requisition_id'' \<or>
      absent_or_falsy [(''item_name'', JStr ''Bolt'')] ''item_name'' \<or>
      absent_or_falsy [(''item_name'', JStr ''Bolt'')] ''quantity''"
    by (simp add: absent_or_falsy_def)
  show ?thesis
    using missing_fields_rejected [OF n m, of example_runtime example_world]
    by (simp add: absent_or_falsy_def)
qed

subsection \<open>Type validation of the quantity\<close>

text \<open>
  Claim C3. When the required fields are present and truthy but the quantity string does
  not parse as a base-10 integer, the handler returns a status-400 error envelope with the
  message \<^verbatim>\<open>Quantity must be an integer\<close> and leaves the database untouched. No range or
  sign check follows the parse: whatever integer the string denotes, negative ones
  included, the handler does not answer with status 400, and when the database calls
  succeed the row is inserted with that quantity.
\<close>

theorem non_integer_quantity_rejected:
  assumes norm: "normalise_parameters event = Inr (JObj d)"
    and rid: "\<not> absent_or_falsy d ''requisition_id''"
    and item: "\<not> absent_or_falsy d ''item_name''"
    and qty: "map_of d ''quantity'' = Some (JStr q)" "q \<noteq> []"
  shows "(int_of_str (int_unicode rt) q = None \<longrightarrow>
            (\<exists>resp. lambda_handler rt w event = (Inr resp, w) \<and>
               json_path [''statusCode''] resp = Some (JInt 400) \<and>
               json_path text_body resp = Some (JStr ''Quantity must be an integer''))) \<and>
         (\<forall>n. int_of_str (int_unicode rt) q = Some n \<longrightarrow>
            (\<exists>resp w'. lambda_handler rt w event = (Inr resp, w') \<and>
               json_path [''statusCode''] resp \<noteq> Some (JInt 400)) \<and>
            (connect_raises rt = None \<and> cursor_raises rt = None \<and>
             execute_raises rt (requested_row rt d n) = None \<and> commit_raises rt = None \<longrightarrow>
               (\<exists>resp w'. lambda_handler rt w event = (Inr resp, w') \<and>
                  table w' = table w @ [requested_row rt d n] \<and>
                  quantity (requested_row rt d n) = n \<and>
                  json_path (echoed ''quantity'') resp = Some (JStr (str_int n)) \<and>
                  json_path [''statusCode''] resp = None)))"
proof (intro conjI impI allI)
  obtain e where e: "event = JObj e"
    using norm normalise_event_obj by blast
  have valid: "missing_fields d = []"
    using rid item qty by (rule valid_strings)
  {
    assume "int_of_str (int_unicode rt) q = None"
    then have "py_int (int_unicode rt) (dict_get d ''quantity'' (JStr [])) = Inl ValueError"
      using qty(1) by (simp add: dict_get_present)
    then have "lambda_handler rt w event =
        (agent_error event ''Quantity must be an integer'' (Some 400), w)"
      using norm valid by (simp add: handler_on_parameters handle_not_integer)
    then show "\<exists>resp. lambda_handler rt w event = (Inr resp, w) \<and>
               json_path [''statusCode''] resp = Some (JInt 400) \<and>
               json_path text_body resp = Some (JStr ''Quantity must be an integer'')"
      unfolding e agent_error_obj by (simp add: text_body_def)
  }
  fix n
  assume n: "int_of_str (int_unicode rt) q = Some n"
  have p: "py_int (int_unicode rt) (dict_get d ''quantity'' (JStr [])) = Inr n"
    using qty(1) n by (simp add: dict_get_present)
  show "\<exists>resp w'. lambda_handler rt w event = (Inr resp, w') \<and>
               json_path [''statusCode''] resp \<noteq> Some (JInt 400)"
    using norm valid p by (rule handler_valid_envelope)
  assume db: "connect_raises rt = None \<and> cursor_raises rt = None \<and>
             execute_raises rt (requested_row rt d n) = None \<and> commit_raises rt = None"
  then have db4: "connect_raises rt = None" "cursor_raises rt = None"
    "execute_raises rt (requested_row rt d n) = None" "commit_raises rt = None"
    by simp_all
  from handler_inserts [OF norm valid p db4, of w]
  obtain resp where
    "lambda_handler rt w event =
       (Inr resp,
        w\<lparr>table := table w @ [requested_row rt d n],
          calls := calls w @ [Connect, OpenCursor, Execute (requested_row rt d n), Commit,
                             CloseCursor, CloseConnection]\<rparr>) \<and>
     json_path (echoed ''quantity'') resp = Some (JStr (str_int n)) \<and>
     json_path text_body resp =
       Some (JStr (body_text (py_repr rt) (dict_get d ''item_name'' (JStr [])) n
         (dict_get d ''requisition_id'' (JStr [])))) \<and>
     json_path [''statusCode''] resp = None" ..
  then show "\<exists>resp w'. lambda_handler rt w event = (Inr resp, w') \<and>
                  table w' = table w @ [requested_row rt d n] \<and>
                  quantity (requested_row rt d n) = n \<and>
                  json_path (echoed ''quantity'') resp = Some (JStr (str_int n)) \<and>
                  json_path [''statusCode''] resp = None"
    by (simp add: requested_row_def)
qed

theorem non_integer_quantity_rejected_witness:
  "(\<exists>resp. lambda_handler example_runtime example_world (bolt_request ''12.5'') =
             (Inr resp, example_world) \<and>
           json_path [''statusCode''] resp = Some (JInt 400) \<and>
           json_path text_body resp = Some (JStr ''Quantity must be an integer'')) \<and>
   (\<exists>resp w'. lambda_handler example_runtime example_world (bolt_request ''-5'') =
             (Inr resp, w') \<and>
           table w' = table example_world @ [bolt_row (- 5)] \<and>
           quantity (bolt_row (- 5)) = - 5 \<and>
           json_path (echoed ''quantity'') resp = Some (JStr ''-5'') \<and>
           json_path [''statusCode''] resp = None)"
proof
  have "''12.5'' \<noteq> []" by simp
  from non_integer_quantity_rejected [OF bolt_normalise bolt_fields this,
      of example_runtime example_world]
  show "\<exists>resp. lambda_handler example_runtime example_world (bolt_request ''12.5'') =
             (Inr resp, example_world) \<and>
           json_path [''statusCode''] resp = Some (JInt 400) \<and>
           json_path text_body resp = Some (JStr ''Quantity must be an integer'')"
    by (simp add: parse_examples)
next
  have "''-5'' \<noteq> []" by simp
  from non_integer_quantity_rejected [OF bolt_normalise bolt_fields this,
      of example_runtime example_world]
  show "\<exists>resp w'. lambda_handler example_runtime example_world (bolt_request ''-5'') =
             (Inr resp, w') \<and>
           table w' = table example_world @ [bolt_row (- 5)] \<and>
           quantity (bolt_row (- 5)) = - 5 \<and>
           json_path (echoed ''quantity'') resp = Some (JStr ''-5'') \<and>
           json_path [''statusCode''] resp = None"
    by (simp add: parse_examples str_examples bolt_requested_row example_runtime_succeeds)
qed

subsection \<open>Persistence failures\<close>

text \<open>
  Claim C4. For a request that passes validation, a failure of connect, of cursor
  creation, of execute or of commit makes the handler return a status-500 error envelope
  whose message is \<^verbatim>\<open>Database error: \<close> followed by the error's text; the table is as it
  was; and on every exit from the persistence step, failure or success, the calls the
  handler made close the cursor exactly once when it was opened and the connection exactly
  once when it was opened.
\<close>

theorem database_failure_reported:
  assumes norm: "normalise_parameters event = Inr (JObj d)"
    and valid: "missing_fields d = []"
    and qty: "py_int (int_unicode rt) (dict_get d ''quantity'' (JStr [])) = Inr n"
    and row: "row = requested_row rt d n"
  shows "(connect_raises rt = Some err \<longrightarrow>
            (\<exists>resp. lambda_handler rt w event = (Inr resp, w) \<and>
               json_path [''statusCode''] resp = Some (JInt 500) \<and>
               json_path text_body resp = Some (JStr (''Database error: '' @ err)))) \<and>
         (connect_raises rt = None \<and> cursor_raises rt = Some err \<longrightarrow>
            (\<exists>resp. lambda_handler rt w event =
                 (Inr resp, w\<lparr>calls := calls w @ [Connect, CloseConnection]\<rparr>) \<and>
               json_path [''statusCode''] resp = Some (JInt 500) \<and>
               json_path text_body resp = Some (JStr (''Database error: '' @ err)))) \<and>
         (connect_raises rt = None \<and> cursor_raises rt = None \<and>
          execute_raises rt row = Some err \<longrightarrow>
            (\<exists>resp. lambda_handler rt w event =
                 (Inr resp,
                  w\<lparr>calls := calls w @ [Connect, OpenCursor, CloseCursor, CloseConnection]\<rparr>) \<and>
               json_path [''statusCode''] resp = Some (JInt 500) \<and>
               json_path text_body resp = Some (JStr (''Database error: '' @ err)))) \<and>
         (connect_raises rt = None \<and> cursor_raises rt = None \<and>
          execute_raises rt row = None \<and> commit_raises rt = Some err \<longrightarrow>
            (\<exists>resp. lambda_handler rt w event =
                 (Inr resp,
                  w\<lparr>calls := calls w @ [Connect, OpenCursor, Execute row, CloseCursor,
                                         CloseConnection]\<rparr>) \<and>
               json_path [''statusCode''] resp = Some (JInt 500) \<and>
               json_path text_body resp = Some (JStr (''Database error: '' @ err)))) \<and>
         (\<exists>acts. calls (snd (lambda_handler rt w event)) = calls w @ acts \<and>
            count_list acts CloseConnection = count_list acts Connect \<and>
            count_list acts CloseCursor = count_list acts OpenCursor \<and>
            count_list acts Connect \<le> 1 \<and> count_list acts OpenCursor \<le> 1)"
proof (intro conjI impI)
  assume "connect_raises rt = Some err"
  then have "insert_line_item rt w (requested_row rt d n) = (Some err, w)"
    by (rule insert_connect_fails)
  with norm valid qty
  show "\<exists>resp. lambda_handler rt w event = (Inr resp, w) \<and>
               json_path [''statusCode''] resp = Some (JInt 500) \<and>
               json_path text_body resp = Some (JStr (''Database error: '' @ err))"
    by (rule handler_database_error)
next
  assume "connect_raises rt = None \<and> cursor_raises rt = Some err"
  then have "insert_line_item rt w (requested_row rt d n) =
      (Some err, w\<lparr>calls := calls w @ [Connect, CloseConnection]\<rparr>)"
    by (simp add: insert_cursor_fails)
  with norm valid qty
  show "\<exists>resp. lambda_handler rt w event =
                 (Inr resp, w\<lparr>calls := calls w @ [Connect, CloseConnection]\<rparr>) \<and>
               json_path [''statusCode''] resp = Some (JInt 500) \<and>
               json_path text_body resp = Some (JStr (''Database error: '' @ err))"
    by (rule handler_database_error)
next
  assume "connect_raises rt = None \<and> cursor_raises rt = None \<and>
          execute_raises rt row = Some err"
  then have "insert_line_item rt w (requested_row rt d n) =
      (Some err, w\<lparr>calls := calls w @ [Connect, OpenCursor, CloseCursor, CloseConnection]\<rparr>)"
    by (simp add: insert_execute_fails row)
  with norm valid qty
  show "\<exists>resp. lambda_handler rt w event =
                 (Inr resp,
                  w\<lparr>calls := calls w @ [Connect, OpenCursor, CloseCursor, CloseConnection]\<rparr>) \<and>
               json_path [''statusCode''] resp = Some (JInt 500) \<and>
               json_path text_body resp = Some (JStr (''Database error: '' @ err))"
    by (rule handler_database_error)
next
  assume "connect_raises rt = None \<and> cursor_raises rt = None \<and>
          execute_raises rt row = None \<and> commit_raises rt = Some err"
  then have "insert_line_item rt w (requested_row rt d n) =
      (Some err, w\<lparr>calls := calls w @ [Connect, OpenCursor, Execute row, CloseCursor,
                                         CloseConnection]\<rparr>)"
    by (simp add: insert_commit_fails row)
  with norm valid qty
  show "\<exists>resp. lambda_handler rt w event =
                 (Inr resp,
                  w\<lparr>calls := calls w @ [Connect, OpenCursor, Execute row, CloseCursor,
                                         CloseConnection]\<rparr>) \<and>
               json_path [''statusCode''] resp = Some (JInt 500) \<and>
               json_path text_body resp = Some (JStr (''Database error: '' @ err))"
    by (rule handler_database_error)
next
  show "\<exists>acts. calls (snd (lambda_handler rt w event)) = calls w @ acts \<and>
            count_list acts CloseConnection = count_list acts Connect \<and>
            count_list acts CloseCursor = count_list acts OpenCursor \<and>
            count_list acts Connect \<le> 1 \<and> count_list acts OpenCursor \<le> 1"
    unfolding handler_world [OF norm valid qty]
    by (rule insert_closes_what_it_opened)
qed

theorem database_failure_reported_witness:
  "(\<exists>resp. lambda_handler
        (example_runtime\<lparr>connect_raises := Some ''connection refused'', commit_raises := None\<rparr>)
        example_world (bolt_request ''10'') = (Inr resp, example_world) \<and>
      json_path [''statusCode''] resp = Some (JInt 500) \<and>
      json_path text_body resp = Some (JStr ''Database error: connection refused'')) \<and>
   (\<exists>resp. lambda_handler
        (example_runtime\<lparr>connect_raises := None, commit_raises := Some ''server closed''\<rparr>)
        example_world (bolt_request ''10'') =
        (Inr resp,
         example_world\<lparr>calls := calls example_world @
           [Connect, OpenCursor, Execute (bolt_row 10), CloseCursor, CloseConnection]\<rparr>) \<and>
      json_path [''statusCode''] resp = Some (JInt 500) \<and>
      json_path text_body resp = Some (JStr ''Database error: server closed''))"
proof -
  have q: "''10'' \<noteq> []" by simp
  note inst = database_failure_reported [OF bolt_normalise bolt_valid [OF q]
      bolt_quantity [OF parse_ten] refl]
  show ?thesis
    using inst [of "example_runtime\<lparr>connect_raises := Some ''connection refused'',
          commit_raises := None\<rparr>" "''connection refused''" example_world]
      inst [of "example_runtime\<lparr>connect_raises := None,
          commit_raises := Some ''server closed''\<rparr>" "''server closed''" example_world]
    by (simp add: bolt_row_any_outcome) (simp add: example_runtime_def)
qed

subsection \<open>The quantity zero\<close>

text \<open>
  Claim C5 says that a quantity supplied as the string \<^verbatim>\<open>"0"\<close> is rejected as missing.
  The check is a truth value test and the string \<^verbatim>\<open>"0"\<close> is not empty, so it is truthy:
  the specification's own well-formed request, with quantity \<^verbatim>\<open>"0"\<close>, has no missing field,
  is inserted with quantity 0 and is answered with the success envelope, which has no
  \<^verbatim>\<open>statusCode\<close> and echoes the quantity as \<^verbatim>\<open>"0"\<close>.
\<close>

theorem zero_string_counterexample:
  "lambda_handler example_runtime example_world (bolt_request ''0'') =
     (Inr (bolt_answer (JStr ''requisitions'') ''0''),
      \<lparr>table = [bolt_row 0],
       calls = [Connect, OpenCursor, Execute (bolt_row 0), Commit, CloseCursor,
                CloseConnection]\<rparr>) \<and>
   missing_fields (bolt_parameters ''0'') = [] \<and>
   json_path [''statusCode''] (bolt_answer (JStr ''requisitions'') ''0'') = None \<and>
   json_path (echoed ''quantity'') (bolt_answer (JStr ''requisitions'') ''0'') =
     Some (JStr ''0'')"
proof -
  have "''0'' \<noteq> []" by simp
  then have "missing_fields (bolt_parameters ''0'') = []"
    by (rule bolt_valid)
  then show ?thesis
    using bolt_answered [OF parse_examples(4)]
    by (simp add: str_examples) (simp add: bolt_answer_def echoed_def)
qed

text \<open>
  Claim C5, amended. With truthy \<^verbatim>\<open>requisition_id\<close> and \<^verbatim>\<open>item_name\<close>: the quantity string
  \<^verbatim>\<open>"0"\<close> is not missing, the handler never answers it with status 400, and when the database
  calls succeed the row is inserted with quantity 0 and echoed as \<^verbatim>\<open>"0"\<close>. It is the JSON
  number 0 that the truth value test reports as missing, with status 400 and the message
  \<^verbatim>\<open>Missing required field(s): quantity\<close>.
\<close>

theorem zero_string_accepted:
  assumes norm: "normalise_parameters event = Inr (JObj d)"
    and rid: "\<not> absent_or_falsy d ''requisition_id''"
    and item: "\<not> absent_or_falsy d ''item_name''"
  shows "(map_of d ''quantity'' = Some (JStr ''0'') \<longrightarrow>
            missing_fields d = [] \<and>
            (\<exists>resp w'. lambda_handler rt w event = (Inr resp, w') \<and>
               json_path [''statusCode''] resp \<noteq> Some (JInt 400)) \<and>
            (connect_raises rt = None \<and> cursor_raises rt = None \<and>
             execute_raises rt (requested_row rt d 0) = None \<and> commit_raises rt = None \<longrightarrow>
               (\<exists>resp w'. lambda_handler rt w event = (Inr resp, w') \<and>
                  table w' = table w @ [requested_row rt d 0] \<and>
                  quantity (requested_row rt d 0) = 0 \<and>
                  json_path (echoed ''quantity'') resp = Some (JStr ''0'') \<and>
                  json_path [''statusCode''] resp = None))) \<and>
         (map_of d ''quantity'' = Some (JInt 0) \<longrightarrow>
            (\<exists>resp. lambda_handler rt w event = (Inr resp, w) \<and>
               json_path [''statusCode''] resp = Some (JInt 400) \<and>
               json_path text_body resp =
                 Some (JStr ''Missing required field(s): quantity'')))"
proof (intro conjI impI)
  obtain e where e: "event = JObj e"
    using norm normalise_event_obj by blast
  {
    assume q: "map_of d ''quantity'' = Some (JStr ''0'')"
    have "''0'' \<noteq> []" by simp
    with rid item q show valid: "missing_fields d = []"
      by (rule valid_strings)
    have p: "py_int (int_unicode rt) (dict_get d ''quantity'' (JStr [])) = Inr 0"
      using q by (simp add: dict_get_present parse_examples)
    show "\<exists>resp w'. lambda_handler rt w event = (Inr resp, w') \<and>
               json_path [''statusCode''] resp \<noteq> Some (JInt 400)"
      using norm valid p by (rule handler_valid_envelope)
    assume db: "connect_raises rt = None \<and> cursor_raises rt = None \<and>
             execute_raises rt (requested_row rt d 0) = None \<and> commit_raises rt = None"
    then have db4: "connect_raises rt = None" "cursor_raises rt = None"
      "execute_raises rt (requested_row rt d 0) = None" "commit_raises rt = None"
      by simp_all
    from handler_inserts [OF norm valid p db4, of w]
    obtain resp where
      "lambda_handler rt w event =
         (Inr resp,
          w\<lparr>table := table w @ [requested_row rt d 0],
            calls := calls w @ [Connect, OpenCursor, Execute (requested_row rt d 0), Commit,
                               CloseCursor, CloseConnection]\<rparr>) \<and>
       json_path (echoed ''quantity'') resp = Some (JStr (str_int 0)) \<and>
       json_path text_body resp =
         Some (JStr (body_text (py_repr rt) (dict_get d ''item_name'' (JStr [])) 0
           (dict_get d ''requisition_id'' (JStr [])))) \<and>
       json_path [''statusCode''] resp = None" ..
    then show "\<exists>resp w'. lambda_handler rt w event = (Inr resp, w') \<and>
                  table w' = table w @ [requested_row rt d 0] \<and>
                  quantity (requested_row rt d 0) = 0 \<and>
                  json_path (echoed ''quantity'') resp = Some (JStr ''0'') \<and>
                  json_path [''statusCode''] resp = None"
      by (simp add: requested_row_def str_examples)
  }
  assume q: "map_of d ''quantity'' = Some (JInt 0)"
  then have m: "missing_fields d = [''quantity'']"
    using rid item by (simp add: missing_fields_filter absent_or_falsy_def)
  then have "lambda_handler rt w event =
      (agent_error event (''Missing required field(s): '' @ join '', '' [''quantity''])
         (Some 400), w)"
    using norm by (simp add: handler_on_parameters handle_missing)
  then show "\<exists>resp. lambda_handler rt w event = (Inr resp, w) \<and>
               json_path [''statusCode''] resp = Some (JInt 400) \<and>
               json_path text_body resp =
                 Some (JStr ''Missing required field(s): quantity'')"
    by (simp add: e agent_error_obj text_body_def)
qed

theorem zero_string_accepted_witness:
  "missing_fields (bolt_parameters ''0'') = [] \<and>
   (\<exists>resp w'. lambda_handler example_runtime example_world (bolt_request ''0'') =
        (Inr resp, w') \<and>
      table w' = table example_world @ [bolt_row 0] \<and>
      quantity (bolt_row 0) = 0 \<and>
      json_path (echoed ''quantity'') resp = Some (JStr ''0'') \<and>
      json_path [''statusCode''] resp = None) \<and>
   (\<exists>resp. lambda_handler example_runtime example_world
        (example_event (JObj [(''requisition_id'', JStr ''REQ1''), (''item_name'', JStr ''Bolt''),
           (''quantity'', JInt 0)])) = (Inr resp, example_world) \<and>
      json_path [''statusCode''] resp = Some (JInt 400) \<and>
      json_path text_body resp = Some (JStr ''Missing required field(s): quantity''))"
proof -
  have n: "normalise_parameters
      (example_event (JObj [(''requisition_id'', JStr ''REQ1''), (''item_name'', JStr ''Bolt''),
           (''quantity'', JInt 0)])) =
      Inr (JObj [(''requisition_id'', JStr ''REQ1''), (''item_name'', JStr ''Bolt''),
           (''quantity'', JInt 0)])"
    by (simp add: normalise_parameters_def example_event_def dict_get_def)
  have f: "\<not> absent_or_falsy [(''requisition_id'', JStr ''REQ1''), (''item_name'', JStr ''Bolt''),
           (''quantity'', JInt 0)] ''requisition_id''"
    "\<not> absent_or_falsy [(''requisition_id'', JStr ''REQ1''), (''item_name'', JStr ''Bolt''),
           (''quantity'', JInt 0)] ''item_name''"
    by (simp_all add: absent_or_falsy_def)
  show ?thesis
    using zero_string_accepted [OF bolt_normalise bolt_fields(1,2),
        of "''0''" example_runtime example_world]
      zero_string_accepted [OF n f, of example_runtime example_world]
    by (simp add: bolt_fields bolt_requested_row example_runtime_succeeds)
qed

subsection \<open>Parameter normalisation\<close>

text \<open>
  Claim C6. Normalisation depends on the request's \<^verbatim>\<open>parameters\<close> field only. A sequence
  of name and value pairs becomes the mapping in which each name has the value of its last
  occurrence, and the request that carries this mapping directly normalises to the same
  mapping. A mapping is used as it is. An absent field gives the empty mapping, and the
  handler then reports all three required fields as missing.
\<close>

theorem normalisation_of_parameters:
  "(map_of e1 ''parameters'' = map_of e2 ''parameters'' \<longrightarrow>
      normalise_parameters (JObj e1) = normalise_parameters (JObj e2)) \<and>
   (map_of e ''parameters'' = Some (JList ps) \<and> list_all2 name_value_pair ps kvs \<longrightarrow>
      (\<exists>d. normalise_parameters (JObj e) = Inr (JObj d) \<and>
         map_of d = map_of (rev kvs) \<and> distinct (map fst d) \<and>
         (\<forall>e'. map_of e' ''parameters'' = Some (JObj d) \<longrightarrow>
            normalise_parameters (JObj e') = normalise_parameters (JObj e)))) \<and>
   (map_of e ''parameters'' = Some (JObj d) \<longrightarrow> normalise_parameters (JObj e) = Inr (JObj d)) \<and>
   (map_of e ''parameters'' = None \<longrightarrow>
      normalise_parameters (JObj e) = Inr (JObj []) \<and>
      (\<exists>resp. lambda_handler rt w (JObj e) = (Inr resp, w) \<and>
         json_path [''statusCode''] resp = Some (JInt 400) \<and>
         json_path text_body resp =
           Some (JStr ''Missing required field(s): requisition_id, item_name, quantity'')))"
proof (intro conjI impI)
  assume "map_of e1 ''parameters'' = map_of e2 ''parameters''"
  then show "normalise_parameters (JObj e1) = normalise_parameters (JObj e2)"
    by (rule normalise_depends_on_parameters)
next
  assume a: "map_of e ''parameters'' = Some (JList ps) \<and> list_all2 name_value_pair ps kvs"
  then obtain d where d: "dict_comprehension ps [] = Inr d"
    "map_of d = map_of [] ++ map_of (rev kvs)" "distinct (map fst d)"
    using comprehension_pairs [of ps kvs "[]"] by auto
  have "normalise_parameters (JObj e) = Inr (JObj d)"
    using a d(1) by (simp add: normalise_list)
  moreover have "map_of d = map_of (rev kvs)"
    using d(2) by simp
  ultimately show "\<exists>d. normalise_parameters (JObj e) = Inr (JObj d) \<and>
         map_of d = map_of (rev kvs) \<and> distinct (map fst d) \<and>
         (\<forall>e'. map_of e' ''parameters'' = Some (JObj d) \<longrightarrow>
            normalise_parameters (JObj e') = normalise_parameters (JObj e))"
    using d(3) by (simp add: normalise_mapping)
next
  assume "map_of e ''parameters'' = Some (JObj d)"
  then show "normalise_parameters (JObj e) = Inr (JObj d)"
    by (rule normalise_mapping)
next
  assume "map_of e ''parameters'' = None"
  then show "normalise_parameters (JObj e) = Inr (JObj [])"
    by (rule normalise_absent)
next
  assume "map_of e ''parameters'' = None"
  then have n: "normalise_parameters (JObj e) = Inr (JObj [])"
    by (rule normalise_absent)
  have m: "missing_fields [] = [''requisition_id'', ''item_name'', ''quantity'']"
    by (simp add: missing_fields_filter absent_or_falsy_def)
  have "lambda_handler rt w (JObj e) =
      (agent_error (JObj e)
         (''Missing required field(s): '' @
            join '', '' [''requisition_id'', ''item_name'', ''quantity'']) (Some 400), w)"
    using n m by (simp add: handler_on_parameters handle_missing)
  then show "\<exists>resp. lambda_handler rt w (JObj e) = (Inr resp, w) \<and>
         json_path [''statusCode''] resp = Some (JInt 400) \<and>
         json_path text_body resp =
           Some (JStr ''Missing required field(s): requisition_id, item_name, quantity'')"
    by (simp add: agent_error_obj text_body_def)
qed

theorem normalisation_of_parameters_witness:
  "(\<exists>d. normalise_parameters (example_event (JList [parameter ''quantity'' ''5''])) =
          Inr (JObj d) \<and>
        map_of d ''quantity'' = Some (JStr ''5'')) \<and>
   (\<exists>d. normalise_parameters
          (example_event (JList [parameter ''quantity'' ''5'', parameter ''quantity'' ''6''])) =
          Inr (JObj d) \<and>
        map_of d ''quantity'' = Some (JStr ''6'')) \<and>
   normalise_parameters (example_event (JObj [(''quantity'', JStr ''5'')])) =
     Inr (JObj [(''quantity'', JStr ''5'')]) \<and>
   (\<exists>resp. lambda_handler example_runtime example_world
        (JObj [(''actionGroup'', JStr ''requisitions''), (''function'', JStr ''add_line_item'')]) =
        (Inr resp, example_world) \<and>
      json_path [''statusCode''] resp = Some (JInt 400) \<and>
      json_path text_body resp =
        Some (JStr ''Missing required field(s): requisition_id, item_name, quantity''))"
proof (intro conjI)
  show "\<exists>d. normalise_parameters (example_event (JList [parameter ''quantity'' ''5''])) =
          Inr (JObj d) \<and>
        map_of d ''quantity'' = Some (JStr ''5'')"
  proof -
    have "map_of [(''actionGroup'', JStr ''requisitions''), (''function'', JStr ''add_line_item''),
                   (''parameters'', JList [parameter ''quantity'' ''5''])] ''parameters'' =
          Some (JList [parameter ''quantity'' ''5'']) \<and>
        list_all2 name_value_pair [parameter ''quantity'' ''5''] [(''quantity'', JStr ''5'')]"
      by (simp add: parameter_def name_value_pair_def)
    with normalisation_of_parameters [THEN conjunct2, THEN conjunct1, THEN mp]
    obtain d where "normalise_parameters
        (JObj [(''actionGroup'', JStr ''requisitions''), (''function'', JStr ''add_line_item''),
               (''parameters'', JList [parameter ''quantity'' ''5''])]) = Inr (JObj d)"
      "map_of d = map_of (rev [(''quantity'', JStr ''5'')])"
      by blast
    then show ?thesis
      by (simp add: example_event_def)
  qed
next
  show "\<exists>d. normalise_parameters
          (example_event (JList [parameter ''quantity'' ''5'', parameter ''quantity'' ''6''])) =
          Inr (JObj d) \<and>
        map_of d ''quantity'' = Some (JStr ''6'')"
  proof -
    have "map_of [(''actionGroup'', JStr ''requisitions''), (''function'', JStr ''add_line_item''),
                   (''parameters'',
                    JList [parameter ''quantity'' ''5'', parameter ''quantity'' ''6''])]
            ''parameters'' =
          Some (JList [parameter ''quantity'' ''5'', parameter ''quantity'' ''6'']) \<and>
        list_all2 name_value_pair [parameter ''quantity'' ''5'', parameter ''quantity'' ''6'']
          [(''quantity'', JStr ''5''), (''quantity'', JStr ''6'')]"
      by (simp add: parameter_def name_value_pair_def)
    with normalisation_of_parameters [THEN conjunct2, THEN conjunct1, THEN mp]
    obtain d where "normalise_parameters
        (JObj [(''actionGroup'', JStr ''requisitions''), (''function'', JStr ''add_line_item''),
               (''parameters'',
                JList [parameter ''quantity'' ''5'', parameter ''quantity'' ''6''])]) =
        Inr (JObj d)"
      "map_of d = map_of (rev [(''quantity'', JStr ''5''), (''quantity'', JStr ''6'')])"
      by blast
    then show ?thesis
      by (simp add: example_event_def)
  qed
next
  show "normalise_parameters (example_event (JObj [(''quantity'', JStr ''5'')])) =
     Inr (JObj [(''quantity'', JStr ''5'')])"
    using normalisation_of_parameters
      [where e = "[(''actionGroup'', JStr ''requisitions''), (''function'', JStr ''add_line_item''),
                   (''parameters'', JObj [(''quantity'', JStr ''5'')])]"
        and d = "[(''quantity'', JStr ''5'')]"]
    by (simp add: example_event_def)
next
  show "\<exists>resp. lambda_handler example_runtime example_world
        (JObj [(''actionGroup'', JStr ''requisitions''), (''function'', JStr ''add_line_item'')]) =
        (Inr resp, example_world) \<and>
      json_path [''statusCode''] resp = Some (JInt 400) \<and>
      json_path text_body resp =
        Some (JStr ''Missing required field(s): requisition_id, item_name, quantity'')"
    using normalisation_of_parameters
      [where e = "[(''actionGroup'', JStr ''requisitions''), (''function'', JStr ''add_line_item'')]"
        and rt = example_runtime and w = example_world]
    by simp
qed

subsection \<open>Exceptions that leave the handler\<close>




subsection \<open>The shape of every response\<close>

text \<open>
  Claim C8. Every response the handler returns carries \<^verbatim>\<open>messageVersion\<close> \<^verbatim>\<open>"1.0"\<close> and, under
  \<^verbatim>\<open>response\<close>, the request's \<^verbatim>\<open>actionGroup\<close> and \<^verbatim>\<open>function\<close> as they came (\<^verbatim>\<open>null\<close> when the
  request has none). It is one of two envelopes. The error envelope has \<^verbatim>\<open>statusCode\<close>, 400
  or 500, as a top-level key beside \<^verbatim>\<open>response\<close>, and its response body holds the text
  message only. The success envelope has no such key and a response body of the text and
  the four echoed fields. The helper's status code is 400 when the caller gives none.
\<close>

theorem response_envelope:
  assumes "lambda_handler rt w event = (Inr resp, w')"
  shows "\<exists>e ag fn.
           event = JObj e \<and>
           ag = (case map_of e ''actionGroup'' of None \<Rightarrow> JNull | Some v \<Rightarrow> v) \<and>
           fn = (case map_of e ''function'' of None \<Rightarrow> JNull | Some v \<Rightarrow> v) \<and>
           json_path [''messageVersion''] resp = Some (JStr ''1.0'') \<and>
           json_path [''response'', ''actionGroup''] resp = Some ag \<and>
           json_path [''response'', ''function''] resp = Some fn \<and>
           ((\<exists>msg c. (c = 400 \<or> c = 500) \<and>
               resp = JObj
                 [(''messageVersion'', JStr ''1.0''),
                  (''response'', JObj
                    [(''actionGroup'', ag),
                     (''function'', fn),
                     (''functionResponse'', JObj
                       [(''responseBody'', JObj [(''TEXT'', JObj [(''body'', JStr msg)])])])]),
                  (''statusCode'', JInt c)]) \<or>
            (\<exists>text r i q m.
               resp = JObj
                 [(''messageVersion'', JStr ''1.0''),
                  (''response'', JObj
                    [(''actionGroup'', ag),
                     (''function'', fn),
                     (''functionResponse'', JObj
                       [(''responseBody'', JObj
                         [(''TEXT'', JObj [(''body'', JStr text)]),
                          (''requisition_id'', r),
                          (''item_name'', i),
                          (''quantity'', JStr q),
                          (''material_code'', m)])])])])) \<and>
           (\<forall>msg. agent_error event msg None = agent_error event msg (Some 400))"
proof -
  from handler_outcomes [OF assms] obtain e where e: "event = JObj e"
    and cases: "(\<exists>msg. Inr resp = agent_error (JObj e) msg (Some 400) \<and> table w' = table w) \<or>
           (\<exists>msg. Inr resp = agent_error (JObj e) msg (Some 500) \<and> table w' = table w) \<or>
           (\<exists>row. Inr resp = success_response rt (JObj e) row \<and> table w' = table w @ [row])"
    by blast
  have dflt: "\<forall>msg. agent_error event msg None = agent_error event msg (Some 400)"
    by (simp add: e agent_error_obj)
  from cases show ?thesis
  proof (elim disjE exE conjE)
    fix msg
    assume "Inr resp = agent_error (JObj e) msg (Some 400)"
    then have "resp = JObj
       [(''messageVersion'', JStr ''1.0''),
        (''response'', JObj
          [(''actionGroup'', dict_get e ''actionGroup'' JNull),
           (''function'', dict_get e ''function'' JNull),
           (''functionResponse'', JObj
             [(''responseBody'', JObj [(''TEXT'', JObj [(''body'', JStr msg)])])])]),
        (''statusCode'', JInt 400)]"
      by (simp add: agent_error_obj)
    with e dflt show ?thesis
      by (simp add: dict_get_def)
  next
    fix msg
    assume "Inr resp = agent_error (JObj e) msg (Some 500)"
    then have "resp = JObj
       [(''messageVersion'', JStr ''1.0''),
        (''response'', JObj
          [(''actionGroup'', dict_get e ''actionGroup'' JNull),
           (''function'', dict_get e ''function'' JNull),
           (''functionResponse'', JObj
             [(''responseBody'', JObj [(''TEXT'', JObj [(''body'', JStr msg)])])])]),
        (''statusCode'', JInt 500)]"
      by (simp add: agent_error_obj)
    with e dflt show ?thesis
      by (simp add: dict_get_def)
  next
    fix row
    assume "Inr resp = success_response rt (JObj e) row"
    then have "resp = JObj
       [(''messageVersion'', JStr ''1.0''),
        (''response'', JObj
          [(''actionGroup'', dict_get e ''actionGroup'' JNull),
           (''function'', dict_get e ''function'' JNull),
           (''functionResponse'', JObj
             [(''responseBody'', JObj
               [(''TEXT'', JObj [(''body'', JStr
                   (body_text (py_repr rt) (item_name row) (quantity row) (requisition_id row)))]),
                (''requisition_id'', requisition_id row),
                (''item_name'', item_name row),
                (''quantity'', JStr (str_int (quantity row))),
                (''material_code'', material_code row)])])])]"
      by (simp add: success_response_obj)
    with e dflt show ?thesis
      by (simp add: dict_get_def)
  qed
qed

theorem response_envelope_witness:
  "\<exists>resp. lambda_handler example_runtime example_world (bolt_request ''abc'') =
          (Inr resp, example_world) \<and>
        json_path [''messageVersion''] resp = Some (JStr ''1.0'') \<and>
        json_path [''response'', ''actionGroup''] resp = Some (JStr ''requisitions'') \<and>
        json_path [''response'', ''function''] resp = Some (JStr ''add_line_item'')"
proof -
  have "''abc'' \<noteq> []" by simp
  with bolt_not_integer [OF parse_examples(1), of example_runtime example_world]
  obtain resp where r: "lambda_handler example_runtime example_world (bolt_request ''abc'') =
      (Inr resp, example_world)"
    by (auto simp: bolt_request_obj agent_error_obj)
  from response_envelope [OF r] obtain e ag fn where
    "bolt_request ''abc'' = JObj e"
    "ag = (case map_of e ''actionGroup'' of None \<Rightarrow> JNull | Some v \<Rightarrow> v)"
    "fn = (case map_of e ''function'' of None \<Rightarrow> JNull | Some v \<Rightarrow> v)"
    "json_path [''messageVersion''] resp = Some (JStr ''1.0'')"
    "json_path [''response'', ''actionGroup''] resp = Some ag"
    "json_path [''response'', ''function''] resp = Some fn"
    by blast
  with r show ?thesis
    by (auto simp: bolt_request_obj)
qed

subsection \<open>Telling success from failure\<close>

text \<open>
  Claim C9 says that a success response has no \<^verbatim>\<open>statusCode\<close> key at any level. The success
  envelope echoes \<^verbatim>\<open>actionGroup\<close>, \<^verbatim>\<open>function\<close> and three parameters as they came, so a
  request whose \<^verbatim>\<open>actionGroup\<close> is the object \<^verbatim>\<open>{"statusCode": 200}\<close> is answered with a
  success envelope that holds the key below the top level: under \<^verbatim>\<open>response\<close> and
  \<^verbatim>\<open>actionGroup\<close>.
\<close>

theorem nested_status_counterexample:
  "lambda_handler example_runtime example_world status_in_action_group =
     (Inr (bolt_answer (JObj [(''statusCode'', JInt 200)]) ''10''),
      \<lparr>table = [bolt_row 10],
       calls = [Connect, OpenCursor, Execute (bolt_row 10), Commit, CloseCursor,
                CloseConnection]\<rparr>) \<and>
   contains_key ''statusCode'' (bolt_answer (JObj [(''statusCode'', JInt 200)]) ''10'') \<and>
   json_path [''response'', ''actionGroup'', ''statusCode'']
     (bolt_answer (JObj [(''statusCode'', JInt 200)]) ''10'') = Some (JInt 200) \<and>
   json_path [''statusCode''] (bolt_answer (JObj [(''statusCode'', JInt 200)]) ''10'') = None"
  by (simp add: status_in_action_group_answered) (simp add: bolt_answer_def)

text \<open>
  Claim C9, amended. A returned response has no top-level \<^verbatim>\<open>statusCode\<close> exactly when a row
  was inserted, so the presence of the top-level key tells failure from success. Below the
  top level a success response holds a \<^verbatim>\<open>statusCode\<close> key only inside a value echoed from
  the request: \<^verbatim>\<open>actionGroup\<close>, \<^verbatim>\<open>function\<close>, \<^verbatim>\<open>requisition_id\<close>, \<^verbatim>\<open>item_name\<close> or
  \<^verbatim>\<open>material_code\<close>.
\<close>

theorem status_code_marks_failure:
  assumes "lambda_handler rt w event = (Inr resp, w')"
  shows "(json_path [''statusCode''] resp = None) = (table w' \<noteq> table w) \<and>
         (json_path [''statusCode''] resp = None \<longrightarrow>
            contains_key ''statusCode'' resp =
              (key_within ''statusCode'' [''response'', ''actionGroup''] resp \<or>
               key_within ''statusCode'' [''response'', ''function''] resp \<or>
               key_within ''statusCode'' (echoed ''requisition_id'') resp \<or>
               key_within ''statusCode'' (echoed ''item_name'') resp \<or>
               key_within ''statusCode'' (echoed ''material_code'') resp))"
proof -
  from handler_outcomes [OF assms] obtain e where e: "event = JObj e"
    and cases: "(\<exists>msg. Inr resp = agent_error (JObj e) msg (Some 400) \<and> table w' = table w) \<or>
           (\<exists>msg. Inr resp = agent_error (JObj e) msg (Some 500) \<and> table w' = table w) \<or>
           (\<exists>row. Inr resp = success_response rt (JObj e) row \<and> table w' = table w @ [row])"
    by blast
  from cases show ?thesis
  proof (elim disjE exE conjE)
    fix msg
    assume "Inr resp = agent_error (JObj e) msg (Some 400)" "table w' = table w"
    then show ?thesis
      by (auto simp: agent_error_obj)
  next
    fix msg
    assume "Inr resp = agent_error (JObj e) msg (Some 500)" "table w' = table w"
    then show ?thesis
      by (auto simp: agent_error_obj)
  next
    fix row
    assume r: "Inr resp = success_response rt (JObj e) row" and t: "table w' = table w @ [row]"
    have resp: "resp = JObj
       [(''messageVersion'', JStr ''1.0''),
        (''response'', JObj
          [(''actionGroup'', dict_get e ''actionGroup'' JNull),
           (''function'', dict_get e ''function'' JNull),
           (''functionResponse'', JObj
             [(''responseBody'', JObj
               [(''TEXT'', JObj [(''body'', JStr
                   (body_text (py_repr rt) (item_name row) (quantity row) (requisition_id row)))]),
                (''requisition_id'', requisition_id row),
                (''item_name'', item_name row),
                (''quantity'', JStr (str_int (quantity row))),
                (''material_code'', material_code row)])])])]"
      using r by (simp add: success_response_obj)
    have top: "json_path [''statusCode''] resp = None"
      by (simp add: resp)
    have deep: "contains_key ''statusCode'' resp =
              (key_within ''statusCode'' [''response'', ''actionGroup''] resp \<or>
               key_within ''statusCode'' [''response'', ''function''] resp \<or>
               key_within ''statusCode'' (echoed ''requisition_id'') resp \<or>
               key_within ''statusCode'' (echoed ''item_name'') resp \<or>
               key_within ''statusCode'' (echoed ''material_code'') resp)"
      by (simp add: resp key_within_def echoed_def)
    show ?thesis
      using top deep t by simp
  qed
qed

theorem status_code_marks_failure_witness:
  "(\<exists>resp. lambda_handler example_runtime example_world (bolt_request ''abc'') =
          (Inr resp, example_world) \<and>
        json_path [''statusCode''] resp \<noteq> None) \<and>
   json_path [''statusCode''] (bolt_answer (JObj [(''statusCode'', JInt 200)]) ''10'') = None \<and>
   contains_key ''statusCode'' (bolt_answer (JObj [(''statusCode'', JInt 200)]) ''10'') \<and>
   key_within ''statusCode'' [''response'', ''actionGroup'']
     (bolt_answer (JObj [(''statusCode'', JInt 200)]) ''10'')"
proof -
  have "''abc'' \<noteq> []" by simp
  with bolt_not_integer [OF parse_examples(1), of example_runtime example_world]
  obtain resp where r: "lambda_handler example_runtime example_world (bolt_request ''abc'') =
      (Inr resp, example_world)"
    by (auto simp: bolt_request_obj agent_error_obj)
  show ?thesis
    using r status_code_marks_failure [OF r]
      status_code_marks_failure [OF status_in_action_group_answered]
    by (auto simp: key_within_def bolt_answer_def)
qed

subsection \<open>The quantity is echoed in canonical form\<close>

text \<open>
  Claim C10. The success message and the echoed \<^verbatim>\<open>quantity\<close> field carry the decimal text of
  the parsed integer, not the string that was supplied. That text is the canonical decimal
  numeral: a minus sign exactly when the integer is negative, then decimal digits without
  a leading zero (the single digit 0 for zero) whose value is the integer's magnitude. The
  parser accepts leading zeros, surrounding white space and a plus sign: \<^verbatim>\<open>"007"\<close> and
  \<^verbatim>\<open>" +7 "\<close> both parse to 7, whose decimal text is \<^verbatim>\<open>"7"\<close>.
\<close>

theorem quantity_echoed_canonically:
  assumes norm: "normalise_parameters event = Inr (JObj d)"
    and rid: "map_of d ''requisition_id'' = Some (JStr r)" "r \<noteq> []"
    and item: "map_of d ''item_name'' = Some (JStr i)" "i \<noteq> []"
    and qty: "map_of d ''quantity'' = Some (JStr q)" "int_of_str (int_unicode rt) q = Some n"
    and db: "connect_raises rt = None" "cursor_raises rt = None"
      "execute_raises rt (requested_row rt d n) = None" "commit_raises rt = None"
  shows "(\<exists>resp w'. lambda_handler rt w event = (Inr resp, w') \<and>
            json_path (echoed ''quantity'') resp = Some (JStr (str_int n)) \<and>
            json_path text_body resp =
              Some (JStr ([CHR 0xE2, CHR 0x9C, CHR 0x93] @ '' Added '' @ [CHR 0x27] @ i @ [CHR 0x27] @
                '' (Qty'' @ [CHR 0xC2, CHR 0xA0] @
                str_int n @ '') to requisition '' @ r @ ''.''))) \<and>
         (\<exists>ds. str_int n = (if n < 0 then CHR ''-'' # ds else ds) \<and> ds \<noteq> [] \<and>
            list_all is_digit ds \<and> (hd ds = CHR ''0'' \<longrightarrow> ds = ''0'') \<and>
            int (foldl (\<lambda>a c. 10 * a + digit_val c) 0 ds) = \<bar>n\<bar>) \<and>
         int_of_str (int_unicode rt) ''007'' = Some 7 \<and>
         int_of_str (int_unicode rt) '' +7 '' = Some 7 \<and> str_int 7 = ''7''"
proof -
  have q: "q \<noteq> []"
    using qty(2) by (rule int_of_str_nonempty)
  have valid: "missing_fields d = []"
    unfolding missing_fields_empty
    using rid item qty(1) q by (simp add: not_absent_str)
  have p: "py_int (int_unicode rt) (dict_get d ''quantity'' (JStr [])) = Inr n"
    using qty by (simp add: dict_get_present)
  from handler_inserts [OF norm valid p db, of w]
  obtain resp where
    "lambda_handler rt w event =
       (Inr resp,
        w\<lparr>table := table w @ [requested_row rt d n],
          calls := calls w @ [Connect, OpenCursor, Execute (requested_row rt d n), Commit,
                             CloseCursor, CloseConnection]\<rparr>) \<and>
     json_path (echoed ''quantity'') resp = Some (JStr (str_int n)) \<and>
     json_path text_body resp =
       Some (JStr (body_text (py_repr rt) (dict_get d ''item_name'' (JStr [])) n
         (dict_get d ''requisition_id'' (JStr [])))) \<and>
     json_path [''statusCode''] resp = None" ..
  then have "\<exists>resp w'. lambda_handler rt w event = (Inr resp, w') \<and>
            json_path (echoed ''quantity'') resp = Some (JStr (str_int n)) \<and>
            json_path text_body resp =
              Some (JStr ([CHR 0xE2, CHR 0x9C, CHR 0x93] @ '' Added '' @ [CHR 0x27] @ i @ [CHR 0x27] @
                '' (Qty'' @ [CHR 0xC2, CHR 0xA0] @
                str_int n @ '') to requisition '' @ r @ ''.''))"
    using rid(1) item(1) by (simp add: dict_get_present body_text_strings)
  then show ?thesis
    using str_int_decimal [of n] by (simp add: parse_examples str_examples)
qed

theorem quantity_echoed_canonically_witness:
  "(\<exists>resp w'. lambda_handler example_runtime example_world (bolt_request ''007'') =
        (Inr resp, w') \<and>
      json_path (echoed ''quantity'') resp = Some (JStr ''7'') \<and>
      json_path text_body resp =
        Some (JStr ([CHR 0xE2, CHR 0x9C, CHR 0x93] @ '' Added 'Bolt' (Qty'' @
               [CHR 0xC2, CHR 0xA0] @ ''7) to requisition REQ1.''))) \<and>
   (\<exists>resp w'. lambda_handler example_runtime example_world (bolt_request '' +7 '') =
        (Inr resp, w') \<and>
      json_path (echoed ''quantity'') resp = Some (JStr ''7'') \<and>
      json_path text_body resp =
        Some (JStr ([CHR 0xE2, CHR 0x9C, CHR 0x93] @ '' Added 'Bolt' (Qty'' @
               [CHR 0xC2, CHR 0xA0] @ ''7) to requisition REQ1.''))) \<and>
   (\<exists>resp w'. lambda_handler example_runtime example_world (bolt_request ''-0_5'') =
        (Inr resp, w') \<and>
      json_path (echoed ''quantity'') resp = Some (JStr ''-5'') \<and>
      json_path text_body resp =
        Some (JStr ([CHR 0xE2, CHR 0x9C, CHR 0x93] @ '' Added 'Bolt' (Qty'' @
               [CHR 0xC2, CHR 0xA0] @ ''-5) to requisition REQ1.''))) \<and>
   ''7'' \<noteq> ''007'' \<and> ''7'' \<noteq> '' +7 '' \<and> ''-5'' \<noteq> ''-0_5''"
proof -
  have f: "map_of (bolt_parameters q) ''requisition_id'' = Some (JStr ''REQ1'')"
    "map_of (bolt_parameters q) ''item_name'' = Some (JStr ''Bolt'')" for q
    by (simp_all add: bolt_parameters_def)
  have ne: "''REQ1'' \<noteq> []" "''Bolt'' \<noteq> []" by simp_all
  have p: "int_of_str u ''-0_5'' = Some (- 5)" for u
    by (simp add: int_of_str_def is_ascii_def int_of_ascii_def strip_def py_isspace_def
        parse_digits_def is_digit_def digit_val_def int_max_str_digits_def)
  note inst = quantity_echoed_canonically [OF bolt_normalise f(1) ne(1) f(2) ne(2)
      bolt_fields(3) _ example_runtime_succeeds, of _ _ example_world]
  show ?thesis
    using inst [OF parse_examples(5)] inst [OF parse_examples(6)] inst [OF p]
    by (simp add: str_examples)
qed

end
